theory Spec2Isabelle
  imports Main
begin

section \<open>The encrypted case registry client (App.tsx)\<close>

text \<open>
  The development embeds the orchestration code of \<^verbatim>\<open>src/frontend/web/src/App.tsx\<close>:
  the operation log (\<^verbatim>\<open>addToHistory\<close>), the reload (\<^verbatim>\<open>loadData\<close>), the availability
  check (\<^verbatim>\<open>testAvailability\<close>), the creation of a case (\<^verbatim>\<open>createCase\<close>), the
  verifiable decryption (\<^verbatim>\<open>decryptData\<close>) and the two controls of the view that start
  the last two (the submit button of \<^verbatim>\<open>ModalCreateCase\<close> and \<^verbatim>\<open>handleDecrypt\<close> of
  \<^verbatim>\<open>CaseDetailModal\<close>).

  React state is a record that every operation takes and returns. The collaborators (the
  contract handles, the encryption hook, the decryption hook, the clock) are a record of
  functions; each takes the number of collaborator calls made so far, so that a
  collaborator may answer the same question differently each time it is asked.
\<close>

subsection \<open>JavaScript values\<close>

text \<open>
  What a promise is rejected with, or what is thrown, is any value (\<^verbatim>\<open>catch (e: any)\<close>);
  the code only ever reads its \<^verbatim>\<open>message\<close>. The value is \<^verbatim>\<open>undefined\<close> or \<^verbatim>\<open>null\<close>
  (\<open>Nullish\<close>), a value with no message (\<open>NoMessage\<close>: the property is absent or
  nullish), a value whose message is a string (\<open>Message\<close>), or a value whose message is
  something else, which has no method \<^verbatim>\<open>includes\<close> (\<open>OddMessage\<close>: a number, a boolean,
  a plain object). A collaborator that resolves does so with a value of its declared type.
\<close>

datatype js_error = Nullish | NoMessage | Message string | OddMessage

text \<open>
  The \<^verbatim>\<open>TypeError\<close> that the engine throws when a property of \<^verbatim>\<open>undefined\<close> is read or
  when something that is not a function is called. Its message is the engine's own; all
  that matters here is that it is a string without the phrases the code looks for.
\<close>

definition typeError :: js_error where
  "typeError = Message ''TypeError''"

text \<open>
  A number as the code produces it: \<^verbatim>\<open>Number(x)\<close> of an integer of the contract, or
  \<^verbatim>\<open>NaN\<close>, which is \<^verbatim>\<open>Number(undefined)\<close>.
\<close>

datatype js_number = Num int | NaN

definition toNumber :: "int option \<Rightarrow> js_number" where
  "toNumber x = (case x of None \<Rightarrow> NaN | Some n \<Rightarrow> Num n)"

datatype 'a outcome = Resolved 'a | Rejected js_error

text \<open>How a block of statements completes: normally with a value, or by throwing.\<close>

datatype 'a completion = Normal 'a | Throw js_error

fun startsWith :: "string \<Rightarrow> string \<Rightarrow> bool" where
  "startsWith s [] = True"
| "startsWith [] (p # ps) = False"
| "startsWith (c # cs) (p # ps) = (c = p \<and> startsWith cs ps)"

text \<open>\<^verbatim>\<open>s.includes(sub)\<close>\<close>

fun includesStr :: "string \<Rightarrow> string \<Rightarrow> bool" where
  "includesStr [] sub = (sub = [])"
| "includesStr (c # cs) sub = (startsWith (c # cs) sub \<or> includesStr cs sub)"

text \<open>
  \<^verbatim>\<open>e.message?.includes(sub)\<close>. The optional chaining guards the message, not \<^verbatim>\<open>e\<close>:
  on \<open>Nullish\<close> reading \<^verbatim>\<open>e.message\<close> throws a \<^verbatim>\<open>TypeError\<close>, and on \<open>OddMessage\<close>
  calling \<^verbatim>\<open>includes\<close> does (\<open>unreadable\<close>). Otherwise the expression has a value,
  which as a condition is \<open>message_includes\<close>: an absent message is falsy.
\<close>

definition unreadable :: "js_error \<Rightarrow> bool" where
  "unreadable e = (case e of Nullish \<Rightarrow> True | OddMessage \<Rightarrow> True
                   | NoMessage \<Rightarrow> False | Message m \<Rightarrow> False)"

definition message_includes :: "js_error \<Rightarrow> string \<Rightarrow> bool" where
  "message_includes e sub =
     (case e of Message m \<Rightarrow> includesStr m sub | Nullish \<Rightarrow> False
      | NoMessage \<Rightarrow> False | OddMessage \<Rightarrow> False)"

text \<open>\<^verbatim>\<open>s.replace(pat, rep)\<close> with a string pattern: the first occurrence only.\<close>

fun replace_first :: "string \<Rightarrow> string \<Rightarrow> string \<Rightarrow> string" where
  "replace_first pat rep [] = (if pat = [] then rep else [])"
| "replace_first pat rep (c # cs) =
     (if startsWith (c # cs) pat then rep @ drop (length pat) (c # cs)
      else c # replace_first pat rep cs)"

definition isWhiteSpace :: "char \<Rightarrow> bool" where
  "isWhiteSpace c = ((of_char c :: nat) \<in> {9, 10, 11, 12, 13, 32})"

text \<open>The value of a character as a digit of a radix up to 16.\<close>

definition digitVal :: "char \<Rightarrow> nat option" where
  "digitVal c =
     (let n = (of_char c :: nat) in
      if 48 \<le> n \<and> n \<le> 57 then Some (n - 48)
      else if 97 \<le> n \<and> n \<le> 102 then Some (n - 87)
      else if 65 \<le> n \<and> n \<le> 70 then Some (n - 55)
      else None)"

definition isRadixDigit :: "nat \<Rightarrow> char \<Rightarrow> bool" where
  "isRadixDigit r c = (case digitVal c of None \<Rightarrow> False | Some d \<Rightarrow> d < r)"

definition digitsVal :: "nat \<Rightarrow> string \<Rightarrow> nat" where
  "digitsVal r ds = foldl (\<lambda>a c. a * r + (case digitVal c of None \<Rightarrow> 0 | Some d \<Rightarrow> d)) 0 ds"

text \<open>
  \<^verbatim>\<open>parseInt(s)\<close> with no radix: leading white space is skipped, a sign is read, a
  \<^verbatim>\<open>0x\<close> prefix selects radix 16, and the longest prefix of digits is the value;
  \<open>None\<close> is NaN. Integers are exact here (a JavaScript number rounds above \<open>2^53\<close>).
\<close>

definition parseInt :: "string \<Rightarrow> int option" where
  "parseInt s =
     (let s1 = dropWhile isWhiteSpace s;
          neg = startsWith s1 ''-'';
          s2 = (if startsWith s1 ''+'' \<or> startsWith s1 ''-'' then tl s1 else s1);
          hex = (startsWith s2 ''0x'' \<or> startsWith s2 ''0X'');
          r = (if hex then 16 else 10);
          s3 = (if hex then drop 2 s2 else s2);
          z = takeWhile (isRadixDigit r) s3
      in if z = [] then None
         else Some ((if neg then - 1 else 1) * int (digitsVal r z)))"

text \<open>\<^verbatim>\<open>parseInt(s) || d\<close>: NaN and 0 are falsy.\<close>

definition parseInt_or :: "string \<Rightarrow> int \<Rightarrow> int" where
  "parseInt_or s d = (case parseInt s of None \<Rightarrow> d | Some n \<Rightarrow> if n = 0 then d else n)"

text \<open>\<^verbatim>\<open>Number(x) || 0\<close> on an integer of the contract.\<close>

definition number_or0 :: "int \<Rightarrow> int" where
  "number_or0 x = (if x = 0 then 0 else x)"

text \<open>A number in a template literal: its decimal digits.\<close>

fun show_nat :: "nat \<Rightarrow> string" where
  "show_nat n =
     (if n < 10 then [''0123456789'' ! n]
      else show_nat (n div 10) @ [''0123456789'' ! (n mod 10)])"

declare show_nat.simps [simp del]

definition show_int :: "int \<Rightarrow> string" where
  "show_int i = (if i < 0 then ''-'' @ show_nat (nat (- i)) else show_nat (nat i))"

subsection \<open>The operation log\<close>

text \<open>
  \<^verbatim>\<open>setOperationHistory(prev => [operation, ...prev.slice(0, 9)])\<close>: the updater applied
  to the previous log.
\<close>

definition addToHistory :: "string \<Rightarrow> string list \<Rightarrow> string list" where
  "addToHistory operation prev = operation # take 9 prev"

subsection \<open>The data model\<close>

text \<open>\<^verbatim>\<open>interface DiseaseCase\<close>; the field \<^verbatim>\<open>id\<close> is \<open>id_c\<close> here.\<close>

record DiseaseCase =
  id_c :: int
  name :: string
  age :: int
  diseaseType :: string
  symptoms :: string
  timestamp :: int
  creator :: string
  publicValue1 :: int
  publicValue2 :: int
  isVerified :: bool
  decryptedValue :: int

text \<open>What \<^verbatim>\<open>contract.getBusinessData(businessId)\<close> resolves with.\<close>

record BusinessData =
  bd_name :: string
  bd_description :: string
  bd_publicValue1 :: int
  bd_publicValue2 :: int
  bd_timestamp :: int
  bd_creator :: string
  bd_isVerified :: bool
  bd_decryptedValue :: int

datatype phase = pending | success | error

record TransactionStatus =
  visible :: bool
  status :: phase
  message :: string

text \<open>The form of the create modal (\<^verbatim>\<open>newCaseData\<close>): four strings.\<close>

record NewCaseData =
  nc_name :: string
  nc_age :: string
  nc_diseaseType :: string
  nc_symptoms :: string

text \<open>What \<^verbatim>\<open>encrypt\<close> resolves with.\<close>

record EncryptedResult =
  encryptedData :: string
  encryptedProof :: string

subsection \<open>Collaborators\<close>

text \<open>A call to a collaborator, with its arguments.\<close>

datatype call =
    GetContractReadOnly
  | GetContractWithSigner
  | GetAllBusinessIds
  | GetBusinessData string
  | GetEncryptedValue string
  | IsAvailable
  | Encrypt string string int
  | CreateBusinessData string string string string int int string
  | TxWait
  | VerifyDecryption "string list" string string

text \<open>
  The collaborators: what each call resolves or rejects with, given the number of calls
  made before it. \<open>getContractReadOnly\<close> and \<open>getContractWithSigner\<close> resolve with a
  contract (\<open>True\<close>) or with null (\<open>False\<close>); the methods of the contract are fields of
  their own. \<open>verifyDecryption\<close> is the hook of the decryption verifier: it is given the
  handles, the contract address and the callback that submits the proof for a business id
  (the callback is identified by that id), and resolves with the clear values by handle,
  a map that may lack a handle.
  \<open>dateNow\<close> is \<^verbatim>\<open>Date.now()\<close>.
\<close>

record collaborators =
  getContractReadOnly :: "nat \<Rightarrow> bool outcome"
  getContractWithSigner :: "nat \<Rightarrow> bool outcome"
  getAllBusinessIds :: "nat \<Rightarrow> string list outcome"
  getBusinessData :: "nat \<Rightarrow> string \<Rightarrow> BusinessData outcome"
  getEncryptedValue :: "nat \<Rightarrow> string \<Rightarrow> string outcome"
  isAvailable :: "nat \<Rightarrow> bool outcome"
  encrypt :: "nat \<Rightarrow> string \<Rightarrow> string \<Rightarrow> int \<Rightarrow> EncryptedResult outcome"
  createBusinessData ::
    "nat \<Rightarrow> string \<Rightarrow> string \<Rightarrow> string \<Rightarrow> string \<Rightarrow> int \<Rightarrow> int \<Rightarrow> string \<Rightarrow> unit outcome"
  txWait :: "nat \<Rightarrow> unit outcome"
  verifyDecryption ::
    "nat \<Rightarrow> string list \<Rightarrow> string \<Rightarrow> string \<Rightarrow> (string \<Rightarrow> int option) outcome"
  dateNow :: "nat \<Rightarrow> int"

subsection \<open>The state of the application\<close>

text \<open>What the view is told to do with the status banner.\<close>

datatype ui_event = SetTransactionStatus TransactionStatus | SetTimeout nat

text \<open>
  A moment of the run of the handlers: a banner update or a timer request, or an
  \<^verbatim>\<open>await\<close> of a collaborator (\<open>Wait\<close>). Time passes, and timers fire, at the waits only:
  what stands between two waits runs without interruption.
\<close>

datatype moment = Wait | Ui ui_event

text \<open>
  The React state of \<^verbatim>\<open>App\<close> that the operations read or write, the values of the
  hooks (\<open>isConnected\<close>, \<open>address\<close>, \<open>isEncrypting\<close>, \<open>fheIsDecrypting\<close>), and four
  histories that the code does not keep but its effects are: the calls made to the
  collaborators (\<open>calls\<close>), the banner updates and timers requested (\<open>ui_log\<close>; every
  timer of the file runs the same callback, which hides the banner), the same updates and
  requests in their order among the waits (\<open>timeline\<close>), and the number of
  \<^verbatim>\<open>console.error\<close> lines (\<open>consoleErrors\<close>).
\<close>

record app_state =
  isConnected :: bool
  address :: "string option"
  isEncrypting :: bool
  fheIsDecrypting :: bool
  cases :: "DiseaseCase list"
  isRefreshing :: bool
  showCreateModal :: bool
  creatingCase :: bool
  transactionStatus :: TransactionStatus
  newCaseData :: NewCaseData
  operationHistory :: "string list"
  contractAddress :: string
  calls :: "call list"
  ui_log :: "ui_event list"
  timeline :: "moment list"
  consoleErrors :: nat

definition tick :: "app_state \<Rightarrow> nat" where
  "tick st = length (calls st)"

definition called :: "call \<Rightarrow> app_state \<Rightarrow> app_state" where
  "called c st = st\<lparr>calls := calls st @ [c], timeline := timeline st @ [Wait]\<rparr>"

definition banner :: "phase \<Rightarrow> string \<Rightarrow> TransactionStatus" where
  "banner p m = \<lparr>visible = True, status = p, message = m\<rparr>"

definition setTransactionStatus :: "TransactionStatus \<Rightarrow> app_state \<Rightarrow> app_state" where
  "setTransactionStatus ts st =
     st\<lparr>transactionStatus := ts, ui_log := ui_log st @ [SetTransactionStatus ts],
        timeline := timeline st @ [Ui (SetTransactionStatus ts)]\<rparr>"

text \<open>
  \<^verbatim>\<open>setTimeout(() => setTransactionStatus({ visible: false, status: "pending", message: "" }), ms)\<close>:
  the request is recorded. No timer is ever cancelled. What the banner shows as time passes
  and the timers fire is computed from the timeline (\<open>replay\<close>, below).
\<close>

definition setTimeout :: "nat \<Rightarrow> app_state \<Rightarrow> app_state" where
  "setTimeout ms st =
     st\<lparr>ui_log := ui_log st @ [SetTimeout ms], timeline := timeline st @ [Ui (SetTimeout ms)]\<rparr>"

definition logOperation :: "string \<Rightarrow> app_state \<Rightarrow> app_state" where
  "logOperation operation st = st\<lparr>operationHistory := addToHistory operation (operationHistory st)\<rparr>"

definition consoleError :: "app_state \<Rightarrow> app_state" where
  "consoleError st = st\<lparr>consoleErrors := Suc (consoleErrors st)\<rparr>"

text \<open>\<^verbatim>\<open>!address\<close>: undefined and the empty string are falsy.\<close>

definition noAddress :: "string option \<Rightarrow> bool" where
  "noAddress a = (case a of None \<Rightarrow> True | Some s \<Rightarrow> s = [])"

subsection \<open>Reload: \<^verbatim>\<open>loadData\<close>\<close>

text \<open>The object that \<^verbatim>\<open>loadData\<close> pushes for one record.\<close>

definition caseOf :: "int \<Rightarrow> string \<Rightarrow> BusinessData \<Rightarrow> DiseaseCase" where
  "caseOf now businessId businessData =
     \<lparr>id_c = parseInt_or (replace_first ''case-'' [] businessId) now,
      name = bd_name businessData,
      age = number_or0 (bd_publicValue1 businessData),
      diseaseType = bd_description businessData,
      symptoms = ''Symptoms recorded'',
      timestamp = bd_timestamp businessData,
      creator = bd_creator businessData,
      publicValue1 = number_or0 (bd_publicValue1 businessData),
      publicValue2 = number_or0 (bd_publicValue2 businessData),
      isVerified = bd_isVerified businessData,
      decryptedValue = number_or0 (bd_decryptedValue businessData)\<rparr>"

text \<open>
  The loop over the business ids: each record is fetched inside its own try; a failure is
  written to the console and the loop goes on.
\<close>

fun fetchCases ::
  "collaborators \<Rightarrow> string list \<Rightarrow> DiseaseCase list \<Rightarrow> app_state \<Rightarrow> DiseaseCase list \<times> app_state"
where
  "fetchCases env [] casesList st = (casesList, st)"
| "fetchCases env (businessId # rest) casesList st =
     (let st1 = called (GetBusinessData businessId) st in
      case getBusinessData env (tick st) businessId of
        Resolved businessData \<Rightarrow>
          fetchCases env rest
            (casesList @ [caseOf (dateNow env (tick st1)) businessId businessData]) st1
      | Rejected e \<Rightarrow> fetchCases env rest casesList (consoleError st1))"

text \<open>The body of the try block of \<^verbatim>\<open>loadData\<close>.\<close>

definition loadData_try :: "collaborators \<Rightarrow> app_state \<Rightarrow> unit completion \<times> app_state" where
  "loadData_try env st =
     (let st1 = called GetContractReadOnly st in
      case getContractReadOnly env (tick st) of
        Rejected e \<Rightarrow> (Throw e, st1)
      | Resolved contract \<Rightarrow>
          if \<not> contract then (Normal (), st1)
          else
            let st2 = called GetAllBusinessIds st1 in
            case getAllBusinessIds env (tick st1) of
              Rejected e \<Rightarrow> (Throw e, st2)
            | Resolved businessIds \<Rightarrow>
                let (casesList, st3) = fetchCases env businessIds [] st2;
                    st4 = st3\<lparr>cases := casesList\<rparr>
                in (Normal (),
                    logOperation
                      (''Data refreshed: '' @ show_nat (length casesList) @ '' cases loaded'') st4))"

definition loadData_catch :: "js_error \<Rightarrow> app_state \<Rightarrow> unit completion \<times> app_state" where
  "loadData_catch e st =
     (Normal (), setTimeout 3000 (setTransactionStatus (banner error ''Failed to load data'') st))"

definition loadData :: "collaborators \<Rightarrow> app_state \<Rightarrow> unit completion \<times> app_state" where
  "loadData env st =
     (if \<not> isConnected st then (Normal (), st)
      else
        let st1 = st\<lparr>isRefreshing := True\<rparr>;
            (c, st2) = loadData_try env st1;
            (c', st3) = (case c of Throw e \<Rightarrow> loadData_catch e st2 | Normal v \<Rightarrow> (Normal v, st2))
        in (c', st3\<lparr>isRefreshing := False\<rparr>))"

text \<open>
  For the statements about a reload. \<open>fetchedRecords env t ids\<close> are the records of the
  keys \<open>ids\<close> whose fetch resolves, in the order of the keys, when the first fetch is call
  number \<open>t\<close>; \<open>failedFetches\<close> counts the others. \<open>reloadKeys\<close> is how far a reload
  started in a state gets with the key list (\<open>reloadKeysAt\<close>: the same, from whether the
  wallet is connected and the number of calls made before).
\<close>

fun fetchedRecords :: "collaborators \<Rightarrow> nat \<Rightarrow> string list \<Rightarrow> DiseaseCase list" where
  "fetchedRecords env t [] = []"
| "fetchedRecords env t (businessId # rest) =
     (case getBusinessData env t businessId of
        Resolved businessData \<Rightarrow> [caseOf (dateNow env (Suc t)) businessId businessData]
      | Rejected e \<Rightarrow> []) @ fetchedRecords env (Suc t) rest"

fun failedFetches :: "collaborators \<Rightarrow> nat \<Rightarrow> string list \<Rightarrow> nat" where
  "failedFetches env t [] = 0"
| "failedFetches env t (businessId # rest) =
     (case getBusinessData env t businessId of Resolved businessData \<Rightarrow> 0 | Rejected e \<Rightarrow> 1)
     + failedFetches env (Suc t) rest"

datatype reload_keys =
    NotConnected
  | NoContract
  | ContractFailed js_error
  | KeysFailed js_error
  | Keys "string list"

definition reloadKeysAt :: "collaborators \<Rightarrow> bool \<Rightarrow> nat \<Rightarrow> reload_keys" where
  "reloadKeysAt env connected t =
     (if \<not> connected then NotConnected
      else
        case getContractReadOnly env t of
          Rejected e \<Rightarrow> ContractFailed e
        | Resolved contract \<Rightarrow>
            if \<not> contract then NoContract
            else
              (case getAllBusinessIds env (Suc t) of
                 Rejected e \<Rightarrow> KeysFailed e
               | Resolved ids \<Rightarrow> Keys ids))"

definition reloadKeys :: "collaborators \<Rightarrow> app_state \<Rightarrow> reload_keys" where
  "reloadKeys env st = reloadKeysAt env (isConnected st) (tick st)"

text \<open>The entry that a reload writes to the operation log.\<close>

definition refreshedEntry :: "nat \<Rightarrow> string" where
  "refreshedEntry n = ''Data refreshed: '' @ show_nat n @ '' cases loaded''"

subsection \<open>The availability check: \<^verbatim>\<open>testAvailability\<close>\<close>

definition testAvailability_try :: "collaborators \<Rightarrow> app_state \<Rightarrow> unit completion \<times> app_state" where
  "testAvailability_try env st =
     (let st1 = called GetContractReadOnly st in
      case getContractReadOnly env (tick st) of
        Rejected e \<Rightarrow> (Throw e, st1)
      | Resolved contract \<Rightarrow>
          if \<not> contract then (Normal (), st1)
          else
            let st2 = called IsAvailable st1 in
            case isAvailable env (tick st1) of
              Rejected e \<Rightarrow> (Throw e, st2)
            | Resolved available \<Rightarrow>
                if available then
                  (Normal (),
                   logOperation ''System availability checked: Ready''
                     (setTransactionStatus (banner success ''FHE System is available and ready!'') st2))
                else (Normal (), st2))"

definition testAvailability_catch :: "js_error \<Rightarrow> app_state \<Rightarrow> unit completion \<times> app_state" where
  "testAvailability_catch e st =
     (Normal (), setTransactionStatus (banner error ''Availability check failed'') st)"

definition testAvailability :: "collaborators \<Rightarrow> app_state \<Rightarrow> unit completion \<times> app_state" where
  "testAvailability env st =
     (if \<not> isConnected st then (Normal (), st)
      else
        let (c, st1) = testAvailability_try env st;
            (c', st2) =
              (case c of Throw e \<Rightarrow> testAvailability_catch e st1 | Normal v \<Rightarrow> (Normal v, st1))
        in (c', setTimeout 2000 st2))"

subsection \<open>Creating a case: \<^verbatim>\<open>createCase\<close>\<close>

text \<open>
  An asynchronous function runs up to its first \<^verbatim>\<open>await\<close> when it is invoked and the
  rest later, when the awaited promise has settled. \<open>createCase_begin\<close> is the part that
  runs at the invocation: the guard, the two state updates and the call of
  \<^verbatim>\<open>getContractWithSigner\<close>. What the rest reads from the closure of the invocation
  (\<^verbatim>\<open>address\<close>, \<^verbatim>\<open>newCaseData\<close>, \<^verbatim>\<open>contractAddress\<close>) is kept in a frame, with the
  number of the pending call.
\<close>

record create_frame =
  cf_address :: string
  cf_newCaseData :: NewCaseData
  cf_contractAddress :: string
  cf_tick :: nat

definition addressText :: "string option \<Rightarrow> string" where
  "addressText a = (case a of None \<Rightarrow> [] | Some s \<Rightarrow> s)"

definition emptyForm :: NewCaseData where
  "emptyForm = \<lparr>nc_name = [], nc_age = [], nc_diseaseType = [], nc_symptoms = []\<rparr>"

definition createCase_begin :: "app_state \<Rightarrow> create_frame option \<times> app_state" where
  "createCase_begin st =
     (if \<not> isConnected st \<or> noAddress (address st) then
        (None, setTimeout 3000 (setTransactionStatus (banner error ''Please connect wallet first'') st))
      else
        let st1 = st\<lparr>creatingCase := True\<rparr>;
            st2 = setTransactionStatus (banner pending ''Encrypting patient data with FHE...'') st1
        in (Some \<lparr>cf_address = addressText (address st), cf_newCaseData = newCaseData st,
                  cf_contractAddress = contractAddress st, cf_tick = tick st2\<rparr>,
            called GetContractWithSigner st2))"

text \<open>The try block from the first \<^verbatim>\<open>await\<close> on.\<close>

definition createCase_try ::
  "collaborators \<Rightarrow> create_frame \<Rightarrow> app_state \<Rightarrow> unit completion \<times> app_state"
where
  "createCase_try env fr st =
     (case getContractWithSigner env (cf_tick fr) of
        Rejected e \<Rightarrow> (Throw e, st)
      | Resolved contract \<Rightarrow>
          if \<not> contract then (Throw (Message ''Failed to get contract with signer''), st)
          else
            let ageValue = parseInt_or (nc_age (cf_newCaseData fr)) 0;
                businessId = ''case-'' @ show_int (dateNow env (tick st));
                st1 = called (Encrypt (cf_contractAddress fr) (cf_address fr) ageValue) st
            in
            case encrypt env (tick st) (cf_contractAddress fr) (cf_address fr) ageValue of
              Rejected e \<Rightarrow> (Throw e, st1)
            | Resolved encryptedResult \<Rightarrow>
                let st2 = called (CreateBusinessData businessId (nc_name (cf_newCaseData fr))
                            (encryptedData encryptedResult) (encryptedProof encryptedResult)
                            ageValue 0 (nc_diseaseType (cf_newCaseData fr))) st1
                in
                case createBusinessData env (tick st1) businessId (nc_name (cf_newCaseData fr))
                       (encryptedData encryptedResult) (encryptedProof encryptedResult)
                       ageValue 0 (nc_diseaseType (cf_newCaseData fr)) of
                  Rejected e \<Rightarrow> (Throw e, st2)
                | Resolved tx \<Rightarrow>
                    let st3 = setTransactionStatus
                                (banner pending ''Storing encrypted data on blockchain...'') st2;
                        st4 = called TxWait st3
                    in
                    case txWait env (tick st3) of
                      Rejected e \<Rightarrow> (Throw e, st4)
                    | Resolved u \<Rightarrow>
                        let st5 = setTransactionStatus
                                    (banner success ''Patient case created successfully!'') st4;
                            st6 = logOperation
                                    (''New case created: '' @ nc_name (cf_newCaseData fr)) st5;
                            st7 = setTimeout 2000 st6;
                            (c, st8) = loadData env st7
                        in
                        case c of
                          Throw e \<Rightarrow> (Throw e, st8)
                        | Normal v \<Rightarrow>
                            (Normal (), st8\<lparr>showCreateModal := False, newCaseData := emptyForm\<rparr>))"

text \<open>
  The message of the error banner, from what was thrown (\<^verbatim>\<open>e.message || "Unknown error"\<close>
  in its second part); it is computed only when the condition could be evaluated.
\<close>

definition errorMessage :: "js_error \<Rightarrow> string" where
  "errorMessage e =
     (if message_includes e ''user rejected transaction'' then ''Transaction rejected''
      else ''Creation failed: '' @
           (case e of Message m \<Rightarrow> if m = [] then ''Unknown error'' else m
            | NoMessage \<Rightarrow> ''Unknown error''
            | Nullish \<Rightarrow> ''Unknown error''
            | OddMessage \<Rightarrow> ''Unknown error''))"

text \<open>
  The catch block. Its first statement evaluates \<^verbatim>\<open>e.message?.includes(...)\<close>; when that
  throws, the block is left at once and nothing is set.
\<close>

definition createCase_catch :: "js_error \<Rightarrow> app_state \<Rightarrow> unit completion \<times> app_state" where
  "createCase_catch e st =
     (if unreadable e then (Throw typeError, st)
      else (Normal (), setTimeout 3000 (setTransactionStatus (banner error (errorMessage e)) st)))"

text \<open>
  The rest of an invocation: try, catch and finally. The finally block runs also when the
  catch block throws, and what was thrown is thrown on.
\<close>

definition createCase_rest ::
  "collaborators \<Rightarrow> create_frame \<Rightarrow> app_state \<Rightarrow> unit completion \<times> app_state"
where
  "createCase_rest env fr st =
     (let (c, st1) = createCase_try env fr st;
          (c', st2) = (case c of Throw e \<Rightarrow> createCase_catch e st1 | Normal v \<Rightarrow> (Normal v, st1))
      in (c', st2\<lparr>creatingCase := False\<rparr>))"

text \<open>An invocation that nothing interleaves with.\<close>

definition createCase :: "collaborators \<Rightarrow> app_state \<Rightarrow> unit completion \<times> app_state" where
  "createCase env st =
     (case createCase_begin st of
        (None, st1) \<Rightarrow> (Normal (), st1)
      | (Some fr, st1) \<Rightarrow> createCase_rest env fr st1)"

subsection \<open>Verifiable decryption: \<^verbatim>\<open>decryptData\<close>\<close>

text \<open>
  \<open>decryptData_begin\<close> runs at the invocation (the guard and the call of
  \<^verbatim>\<open>getContractReadOnly\<close>); \<open>decryptData_fetch\<close> runs from there to the call of the
  verifier, unless the function returns or throws before; \<open>decryptData_verified\<close> runs
  when the verifier has settled.
\<close>

record decrypt_frame =
  df_businessId :: string
  df_contractAddress :: string
  df_tick :: nat

record verify_frame =
  vf_businessId :: string
  vf_contractAddress :: string
  vf_handle :: string
  vf_name :: string
  vf_tick :: nat

datatype fetched = Returned "js_number option" | Thrown js_error | Verifying verify_frame

definition decryptData_begin :: "string \<Rightarrow> app_state \<Rightarrow> decrypt_frame option \<times> app_state" where
  "decryptData_begin businessId st =
     (if \<not> isConnected st \<or> noAddress (address st) then
        (None, setTimeout 3000 (setTransactionStatus (banner error ''Please connect wallet first'') st))
      else
        (Some \<lparr>df_businessId = businessId, df_contractAddress = contractAddress st,
                df_tick = tick st\<rparr>,
         called GetContractReadOnly st))"

definition decryptData_fetch ::
  "collaborators \<Rightarrow> decrypt_frame \<Rightarrow> app_state \<Rightarrow> fetched \<times> app_state"
where
  "decryptData_fetch env fr st =
     (case getContractReadOnly env (df_tick fr) of
        Rejected e \<Rightarrow> (Thrown e, st)
      | Resolved contractRead \<Rightarrow>
          if \<not> contractRead then (Returned None, st)
          else
            let st1 = called (GetBusinessData (df_businessId fr)) st in
            case getBusinessData env (tick st) (df_businessId fr) of
              Rejected e \<Rightarrow> (Thrown e, st1)
            | Resolved businessData \<Rightarrow>
                if bd_isVerified businessData then
                  let storedValue = Num (number_or0 (bd_decryptedValue businessData));
                      st2 = setTransactionStatus (banner success ''Data already verified'') st1;
                      st3 = setTimeout 2000 st2;
                      st4 = logOperation
                              (''Data verified for case: '' @ bd_name businessData) st3
                  in (Returned (Some storedValue), st4)
                else
                  let st2 = called GetContractWithSigner st1 in
                  case getContractWithSigner env (tick st1) of
                    Rejected e \<Rightarrow> (Thrown e, st2)
                  | Resolved contractWrite \<Rightarrow>
                      if \<not> contractWrite then (Returned None, st2)
                      else
                        let st3 = called (GetEncryptedValue (df_businessId fr)) st2 in
                        case getEncryptedValue env (tick st2) (df_businessId fr) of
                          Rejected e \<Rightarrow> (Thrown e, st3)
                        | Resolved encryptedValueHandle \<Rightarrow>
                            (Verifying
                               \<lparr>vf_businessId = df_businessId fr,
                                vf_contractAddress = df_contractAddress fr,
                                vf_handle = encryptedValueHandle,
                                vf_name = bd_name businessData,
                                vf_tick = tick st3\<rparr>,
                             called (VerifyDecryption [encryptedValueHandle]
                                       (df_contractAddress fr) (df_businessId fr)) st3))"

definition decryptData_verified ::
  "collaborators \<Rightarrow> verify_frame \<Rightarrow> app_state \<Rightarrow> js_number option completion \<times> app_state"
where
  "decryptData_verified env vf st =
     (case verifyDecryption env (vf_tick vf) [vf_handle vf] (vf_contractAddress vf)
             (vf_businessId vf) of
        Rejected e \<Rightarrow> (Throw e, st)
      | Resolved clearValues \<Rightarrow>
          let st1 = setTransactionStatus (banner pending ''Verifying decryption...'') st;
              clearValue = clearValues (vf_handle vf);
              (c, st2) = loadData env st1
          in
          case c of
            Throw e \<Rightarrow> (Throw e, st2)
          | Normal u \<Rightarrow>
              let st3 = logOperation (''Data decrypted for case: '' @ vf_name vf) st2;
                  st4 = setTransactionStatus (banner success ''Data decrypted successfully!'') st3;
                  st5 = setTimeout 2000 st4
              in (Normal (Some (toNumber clearValue)), st5))"

text \<open>
  The catch block. Its condition is \<^verbatim>\<open>e.message?.includes("Data already verified")\<close>;
  when evaluating it throws, the block is left at once: \<^verbatim>\<open>decryptData\<close> throws.
\<close>

definition decryptData_catch ::
  "collaborators \<Rightarrow> js_error \<Rightarrow> app_state \<Rightarrow> js_number option completion \<times> app_state"
where
  "decryptData_catch env e st =
     (if unreadable e then (Throw typeError, st)
      else if message_includes e ''Data already verified'' then
        let st1 = setTransactionStatus (banner success ''Data is already verified'') st;
            st2 = setTimeout 2000 st1;
            (c, st3) = loadData env st2
        in
        case c of
          Throw e' \<Rightarrow> (Throw e', st3)
        | Normal u \<Rightarrow> (Normal None, st3)
      else
        (Normal None, setTimeout 3000 (setTransactionStatus (banner error ''Decryption failed'') st)))"

text \<open>The end of an invocation whose verifier has settled: the rest of the try, and the catch.\<close>

definition decryptData_settle ::
  "collaborators \<Rightarrow> verify_frame \<Rightarrow> app_state \<Rightarrow> js_number option completion \<times> app_state"
where
  "decryptData_settle env vf st =
     (case decryptData_verified env vf st of
        (Throw e, st1) \<Rightarrow> decryptData_catch env e st1
      | (Normal r, st1) \<Rightarrow> (Normal r, st1))"

text \<open>An invocation that nothing interleaves with.\<close>

definition decryptData ::
  "collaborators \<Rightarrow> string \<Rightarrow> app_state \<Rightarrow> js_number option completion \<times> app_state"
where
  "decryptData env businessId st =
     (case decryptData_begin businessId st of
        (None, st1) \<Rightarrow> (Normal None, st1)
      | (Some fr, st1) \<Rightarrow>
          (case decryptData_fetch env fr st1 of
             (Returned r, st2) \<Rightarrow> (Normal r, st2)
           | (Thrown e, st2) \<Rightarrow> decryptData_catch env e st2
           | (Verifying vf, st2) \<Rightarrow> decryptData_settle env vf st2))"

subsection \<open>The controls of the view\<close>

text \<open>
  \<^verbatim>\<open>ModalCreateCase.handleChange\<close>: the age keeps its digits only
  (\<^verbatim>\<open>value.replace(/[^\d]/g, '')\<close>); the other fields are stored as typed.
\<close>

definition isDigit :: "char \<Rightarrow> bool" where
  "isDigit c = (48 \<le> (of_char c :: nat) \<and> (of_char c :: nat) \<le> 57)"

definition handleChange :: "string \<Rightarrow> string \<Rightarrow> NewCaseData \<Rightarrow> NewCaseData" where
  "handleChange field v caseData =
     (if field = ''age'' then caseData\<lparr>nc_age := filter isDigit v\<rparr>
      else if field = ''name'' then caseData\<lparr>nc_name := v\<rparr>
      else if field = ''diseaseType'' then caseData\<lparr>nc_diseaseType := v\<rparr>
      else if field = ''symptoms'' then caseData\<lparr>nc_symptoms := v\<rparr>
      else caseData)"

text \<open>
  The \<^verbatim>\<open>disabled\<close> attribute of the submit button of the create modal:
  \<^verbatim>\<open>creating || isEncrypting || !caseData.name || !caseData.age || !caseData.diseaseType\<close>.
\<close>

definition submitDisabled :: "app_state \<Rightarrow> bool" where
  "submitDisabled st =
     (creatingCase st \<or> isEncrypting st \<or> nc_name (newCaseData st) = []
      \<or> nc_age (newCaseData st) = [] \<or> nc_diseaseType (newCaseData st) = [])"

text \<open>
  \<^verbatim>\<open>CaseDetailModal.handleDecrypt\<close> up to its \<^verbatim>\<open>await\<close>; the modal is given
  \<^verbatim>\<open>() => decryptData(`case-${selectedCase.id}`)\<close>. Its last statement writes
  \<^verbatim>\<open>localDecrypted\<close>, the modal's own state, which is not part of \<open>app_state\<close>.
\<close>

definition handleDecrypt_begin :: "DiseaseCase \<Rightarrow> app_state \<Rightarrow> decrypt_frame option \<times> app_state" where
  "handleDecrypt_begin caseItem st =
     (if isVerified caseItem then (None, st)
      else decryptData_begin (''case-'' @ show_int (id_c caseItem)) st)"

subsection \<open>Banners and their timers\<close>

text \<open>What an operation added to the banner history and to the timeline of the state it started in.\<close>

definition newUi :: "app_state \<Rightarrow> app_state \<Rightarrow> ui_event list" where
  "newUi st st' = drop (length (ui_log st)) (ui_log st')"

definition newTimeline :: "app_state \<Rightarrow> app_state \<Rightarrow> moment list" where
  "newTimeline st st' = drop (length (timeline st)) (timeline st')"

text \<open>
  In a timeline every success banner is followed at once, before any wait, by the request
  of a timer of 2000 ms, and every error banner by the request of a timer of 3000 ms (a
  pending banner needs none).
\<close>

fun timerNext :: "nat \<Rightarrow> moment list \<Rightarrow> bool" where
  "timerNext n [] = False"
| "timerNext n (Wait # ms) = False"
| "timerNext n (Ui (SetTimeout n') # ms) = (n' = n)"
| "timerNext n (Ui (SetTransactionStatus ts) # ms) = False"

fun paired :: "moment list \<Rightarrow> bool" where
  "paired [] = True"
| "paired (Wait # ms) = paired ms"
| "paired (Ui (SetTimeout n) # ms) = paired ms"
| "paired (Ui (SetTransactionStatus ts) # ms) =
     ((case status ts of
         pending \<Rightarrow> True
       | success \<Rightarrow> timerNext 2000 ms
       | error \<Rightarrow> timerNext 3000 ms)
      \<and> paired ms)"

text \<open>From one state to a later one the timeline has only grown, by a paired list.\<close>

definition pairedFrom :: "app_state \<Rightarrow> app_state \<Rightarrow> bool" where
  "pairedFrom st st' =
     (timeline st' = timeline st @ newTimeline st st' \<and> paired (newTimeline st st'))"

text \<open>
  What the view shows as time passes: the clock (ms), the deadlines of the timers that
  have been requested and have not fired, and the banner on display with the time at
  which it was set (\<open>None\<close>: no banner is visible).
\<close>

record display =
  d_clock :: nat
  d_pending :: "nat list"
  d_shown :: "(phase \<times> nat) option"

text \<open>
  A wait that takes \<open>l\<close> ms: every timer whose deadline is reached fires, and a timer
  that fires hides the banner, whichever it is.
\<close>

definition advance :: "nat \<Rightarrow> display \<Rightarrow> display" where
  "advance l d =
     \<lparr>d_clock = d_clock d + l,
      d_pending = filter (\<lambda>x. d_clock d + l < x) (d_pending d),
      d_shown = (if list_ex (\<lambda>x. x \<le> d_clock d + l) (d_pending d) then None else d_shown d)\<rparr>"

definition showsBanner :: "TransactionStatus \<Rightarrow> display \<Rightarrow> display" where
  "showsBanner ts d = d\<lparr>d_shown := (if visible ts then Some (status ts, d_clock d) else None)\<rparr>"

definition schedules :: "nat \<Rightarrow> display \<Rightarrow> display" where
  "schedules n d = d\<lparr>d_pending := d_pending d @ [d_clock d + n]\<rparr>"

text \<open>
  The display after a timeline, when the waits take the times \<open>ls\<close> in turn (a wait for
  which no time is given takes none).
\<close>

fun replay :: "nat list \<Rightarrow> moment list \<Rightarrow> display \<Rightarrow> display" where
  "replay ls [] d = d"
| "replay ls (Wait # ms) d = replay (tl ls) ms (advance (case ls of [] \<Rightarrow> 0 | l # r \<Rightarrow> l) d)"
| "replay ls (Ui (SetTransactionStatus ts) # ms) d = replay ls ms (showsBanner ts d)"
| "replay ls (Ui (SetTimeout n) # ms) d = replay ls ms (schedules n d)"

text \<open>
  The delay after which a banner is to be gone: 2000 ms for a success banner, 3000 ms for
  an error banner, none for a pending one.
\<close>

fun delayOf :: "phase \<Rightarrow> nat option" where
  "delayOf pending = None"
| "delayOf success = Some 2000"
| "delayOf error = Some 3000"

text \<open>
  The banner on display is covered: a timer is pending that fires no later than the
  banner's delay after the banner was set.
\<close>

definition covered :: "display \<Rightarrow> bool" where
  "covered d =
     (case d_shown d of
        None \<Rightarrow> True
      | Some (p, since) \<Rightarrow>
          (case delayOf p of
             None \<Rightarrow> True
           | Some n \<Rightarrow> list_ex (\<lambda>x. x \<le> since + n) (d_pending d)))"

text \<open>
  Along a timeline, with the waits taking the times \<open>ls\<close>, the banner on display is
  covered whenever time can pass: at every wait and at the end.
\<close>

fun timely :: "nat list \<Rightarrow> moment list \<Rightarrow> display \<Rightarrow> bool" where
  "timely ls [] d = covered d"
| "timely ls (Wait # ms) d =
     (covered d \<and> timely (tl ls) ms (advance (case ls of [] \<Rightarrow> 0 | l # r \<Rightarrow> l) d))"
| "timely ls (Ui (SetTransactionStatus ts) # ms) d = timely ls ms (showsBanner ts d)"
| "timely ls (Ui (SetTimeout n) # ms) d = timely ls ms (schedules n d)"

subsection \<open>Invocations in flight\<close>

text \<open>
  All tasks run on one thread: an asynchronous function gives up control at an
  \<^verbatim>\<open>await\<close> and another handler may run before it goes on. A task in flight is an
  invocation that waits: a \<^verbatim>\<open>createCase\<close> after its first \<^verbatim>\<open>await\<close>, a
  \<^verbatim>\<open>decryptData\<close> that has not reached the verifier yet, or a \<^verbatim>\<open>decryptData\<close> whose
  verifier round is running.
\<close>

datatype task = CreateTask create_frame | DecryptFetch decrypt_frame | DecryptRound verify_frame

text \<open>
  What can happen next: one of the two functions is invoked, one of the two buttons is
  clicked (the decrypt button is rendered for an unverified case only and is disabled
  while the hook reports \<^verbatim>\<open>isDecrypting\<close>; a disabled button runs no handler), or the
  \<open>i\<close>-th task in flight goes on. A \<open>CreateTask\<close> goes on to its end and a
  \<open>DecryptFetch\<close> to the call of the verifier in one step.
\<close>

datatype event =
    InvokeCreate
  | ClickSubmit
  | InvokeDecrypt string
  | ClickDecrypt DiseaseCase
  | Settle nat

definition launch :: "('f \<Rightarrow> task) \<Rightarrow> 'f option \<times> app_state \<Rightarrow> task list \<Rightarrow> app_state \<times> task list" where
  "launch mk r ts = (case r of (None, st1) \<Rightarrow> (st1, ts) | (Some fr, st1) \<Rightarrow> (st1, ts @ [mk fr]))"

definition remove_nth :: "nat \<Rightarrow> 'a list \<Rightarrow> 'a list" where
  "remove_nth i xs = take i xs @ drop (Suc i) xs"

definition settle :: "collaborators \<Rightarrow> nat \<Rightarrow> app_state \<times> task list \<Rightarrow> app_state \<times> task list" where
  "settle env i sys =
     (case sys of (st, ts) \<Rightarrow>
        if i < length ts then
          (case ts ! i of
             CreateTask fr \<Rightarrow> (snd (createCase_rest env fr st), remove_nth i ts)
           | DecryptFetch fr \<Rightarrow>
               (case decryptData_fetch env fr st of
                  (Returned r, st1) \<Rightarrow> (st1, remove_nth i ts)
                | (Thrown e, st1) \<Rightarrow> (snd (decryptData_catch env e st1), remove_nth i ts)
                | (Verifying vf, st1) \<Rightarrow> (st1, ts[i := DecryptRound vf]))
           | DecryptRound vf \<Rightarrow> (snd (decryptData_settle env vf st), remove_nth i ts))
        else (st, ts))"

definition step :: "collaborators \<Rightarrow> event \<Rightarrow> app_state \<times> task list \<Rightarrow> app_state \<times> task list" where
  "step env ev sys =
     (case sys of (st, ts) \<Rightarrow>
        (case ev of
           InvokeCreate \<Rightarrow> launch CreateTask (createCase_begin st) ts
         | ClickSubmit \<Rightarrow>
             if submitDisabled st then (st, ts) else launch CreateTask (createCase_begin st) ts
         | InvokeDecrypt businessId \<Rightarrow> launch DecryptFetch (decryptData_begin businessId st) ts
         | ClickDecrypt caseItem \<Rightarrow>
             if isVerified caseItem \<or> fheIsDecrypting st then (st, ts)
             else launch DecryptFetch (handleDecrypt_begin caseItem st) ts
         | Settle i \<Rightarrow> settle env i sys))"

definition run :: "collaborators \<Rightarrow> event list \<Rightarrow> app_state \<times> task list \<Rightarrow> app_state \<times> task list" where
  "run env evs sys = fold (step env) evs sys"

fun isCreateTask :: "task \<Rightarrow> bool" where
  "isCreateTask (CreateTask fr) = True"
| "isCreateTask (DecryptFetch fr) = False"
| "isCreateTask (DecryptRound vf) = False"

text \<open>A verifier round in flight for a business id.\<close>

fun isRoundFor :: "string \<Rightarrow> task \<Rightarrow> bool" where
  "isRoundFor k (CreateTask fr) = False"
| "isRoundFor k (DecryptFetch fr) = False"
| "isRoundFor k (DecryptRound vf) = (vf_businessId vf = k)"

fun isCreateTx :: "call \<Rightarrow> bool" where
  "isCreateTx (CreateBusinessData businessId n d p v1 v2 t) = True"
| "isCreateTx c = False"

fun isVerifyCall :: "call \<Rightarrow> bool" where
  "isVerifyCall (VerifyDecryption hs a k) = True"
| "isVerifyCall c = False"

text \<open>
  At most one \<^verbatim>\<open>createCase\<close> is in flight, and while one is, \<^verbatim>\<open>creatingCase\<close> is set.
\<close>

definition singleFlight :: "app_state \<times> task list \<Rightarrow> bool" where
  "singleFlight sys =
     (case sys of (st, ts) \<Rightarrow>
        length (filter isCreateTask ts) \<le> 1 \<and> (filter isCreateTask ts = [] \<or> creatingCase st))"

text \<open>
  A schedule of \<open>n\<close> invocations of \<^verbatim>\<open>decryptData\<close> for one business id: each is
  invoked while all the earlier ones are in flight, and goes on to the call of the
  verifier.
\<close>

fun requests :: "nat \<Rightarrow> string \<Rightarrow> event list" where
  "requests 0 k = []"
| "requests (Suc n) k = requests n k @ [InvokeDecrypt k, Settle n]"

subsection \<open>A wallet, a ledger and some collaborators\<close>

text \<open>Concrete states and collaborators, on which the theorems below are run.\<close>

definition wallet :: app_state where
  "wallet =
     \<lparr>isConnected = True, address = Some ''0xA11CE'', isEncrypting = False,
      fheIsDecrypting = False, cases = [], isRefreshing = False, showCreateModal = True,
      creatingCase = False,
      transactionStatus = \<lparr>visible = False, status = pending, message = []\<rparr>,
      newCaseData = \<lparr>nc_name = ''Alice'', nc_age = ''34'',
                     nc_diseaseType = ''Cystic Fibrosis'', nc_symptoms = []\<rparr>,
      operationHistory = [], contractAddress = ''0xC0DE'', calls = [], ui_log = [],
      timeline = [], consoleErrors = 0\<rparr>"

definition storedRecord :: "string \<Rightarrow> bool \<Rightarrow> BusinessData" where
  "storedRecord n v =
     \<lparr>bd_name = n, bd_description = ''Cystic Fibrosis'', bd_publicValue1 = 34,
      bd_publicValue2 = 0, bd_timestamp = 1700000000, bd_creator = ''0xA11CE'',
      bd_isVerified = v, bd_decryptedValue = (if v then 34 else 0)\<rparr>"

text \<open>
  Five keys on the ledger; the records of the second and the fourth cannot be fetched;
  no record is verified; every other call resolves.
\<close>

definition ledger :: collaborators where
  "ledger =
     \<lparr>getContractReadOnly = (\<lambda>t. Resolved True),
      getContractWithSigner = (\<lambda>t. Resolved True),
      getAllBusinessIds = (\<lambda>t. Resolved [''case-1'', ''case-2'', ''case-3'', ''case-4'', ''case-5'']),
      getBusinessData = (\<lambda>t k. if k = ''case-2'' \<or> k = ''case-4'' then Rejected (Message ''timeout'')
                                  else Resolved (storedRecord k False)),
      getEncryptedValue = (\<lambda>t k. Resolved (''handle-'' @ k)),
      isAvailable = (\<lambda>t. Resolved True),
      encrypt = (\<lambda>t c a v. Resolved \<lparr>encryptedData = ''ciphertext'', encryptedProof = ''proof''\<rparr>),
      createBusinessData = (\<lambda>t k n d p v1 v2 ty. Resolved ()),
      txWait = (\<lambda>t. Resolved ()),
      verifyDecryption = (\<lambda>t hs c k. Resolved (\<lambda>h. if h \<in> set hs then Some 34 else None)),
      dateNow = (\<lambda>t. 1730000000000)\<rparr>"

text \<open>The same ledger when every record is verified already.\<close>

definition ledgerVerified :: collaborators where
  "ledgerVerified = ledger\<lparr>getBusinessData := (\<lambda>t k. Resolved (storedRecord k True))\<rparr>"

text \<open>The submission of the proof loses a race: the contract reverts.\<close>

definition ledgerRace :: collaborators where
  "ledgerRace =
     ledger\<lparr>verifyDecryption :=
              (\<lambda>t hs c k. Rejected (Message ''execution reverted: Data already verified'')),
            getAllBusinessIds := (\<lambda>t. Rejected (Message ''network error''))\<rparr>"

text \<open>The availability call fails.\<close>

definition ledgerDown :: collaborators where
  "ledgerDown = ledger\<lparr>isAvailable := (\<lambda>t. Rejected (Message ''network error''))\<rparr>"

text \<open>The verifier rejects with \<^verbatim>\<open>undefined\<close>, as \<^verbatim>\<open>Promise.reject()\<close> does.\<close>

definition ledgerNullish :: collaborators where
  "ledgerNullish = ledger\<lparr>verifyDecryption := (\<lambda>t hs c k. Rejected Nullish)\<rparr>"

text \<open>The verifier resolves with clear values that lack the handle it was given.\<close>

definition ledgerNoValue :: collaborators where
  "ledgerNoValue = ledger\<lparr>verifyDecryption := (\<lambda>t hs c k. Resolved (\<lambda>h. None))\<rparr>"

text \<open>The signer refuses the transaction.\<close>

definition ledgerRejected :: collaborators where
  "ledgerRejected =
     ledger\<lparr>createBusinessData :=
              (\<lambda>t k n d p v1 v2 ty. Rejected (Message ''user rejected transaction''))\<rparr>"

text \<open>No contract can be obtained for reading.\<close>

definition ledgerNoContract :: collaborators where
  "ledgerNoContract = ledger\<lparr>getContractReadOnly := (\<lambda>t. Resolved False)\<rparr>"

text \<open>The frame of \<^verbatim>\<open>createCase\<close> invoked on the wallet.\<close>

definition walletFrame :: create_frame where
  "walletFrame =
     \<lparr>cf_address = ''0xA11CE'', cf_newCaseData = newCaseData wallet,
      cf_contractAddress = ''0xC0DE'', cf_tick = 0\<rparr>"

text \<open>The wallet after the user has typed into the age field of the form.\<close>

definition walletWithAge :: "string \<Rightarrow> app_state" where
  "walletWithAge v = wallet\<lparr>newCaseData := handleChange ''age'' v (newCaseData wallet)\<rparr>"

text \<open>The case of the first key as the snapshot shows it, for the detail modal.\<close>

definition firstCase :: DiseaseCase where
  "firstCase = caseOf 0 ''case-1'' (storedRecord ''case-1'' False)"

text \<open>A view that shows nothing, at time 0, with no timer pending.\<close>

definition blank :: display where
  "blank = \<lparr>d_clock = 0, d_pending = [], d_shown = None\<rparr>"

subsection \<open>Properties of the operation log\<close>

lemma addToHistory_fold:
  "fold addToHistory ops (take 10 prev) = take 10 (rev ops @ prev)"
proof (induction ops arbitrary: prev)
  case Nil
  show ?case by simp
next
  case (Cons x xs)
  have "addToHistory x (take 10 prev) = take 10 (x # prev)"
    by (simp add: addToHistory_def take_Cons' min_def)
  then have "fold addToHistory (x # xs) (take 10 prev) = fold addToHistory xs (take 10 (x # prev))"
    by simp
  also have "\<dots> = take 10 (rev xs @ x # prev)"
    by (rule Cons.IH)
  finally show ?case by simp
qed

text \<open>
  C9. After any sequence of appends to the (initially empty) log, the log is the ten most
  recent entries, newest first; it never holds more than ten entries; appending twelve
  entries leaves the ten most recent; and an append is a total function of the entry and
  the previous log (it always yields the entry in front of at most nine older ones).
\<close>

theorem addToHistory_bounded_newest_first:
  "fold addToHistory ops [] = take 10 (rev ops)
   \<and> length (fold addToHistory ops []) = min 10 (length ops)
   \<and> length (addToHistory e prev) = Suc (min 9 (length prev))
   \<and> hd (addToHistory e prev) = e
   \<and> fold addToHistory [e1, e2, e3, e4, e5, e6, e7, e8, e9, e10, e11, e12] []
       = [e12, e11, e10, e9, e8, e7, e6, e5, e4, e3]"
proof -
  have a: "fold addToHistory ops [] = take 10 (rev ops)"
    using addToHistory_fold [of ops "[]"] by simp
  have b: "length (fold addToHistory ops []) = min 10 (length ops)"
    by (simp add: a min.commute)
  have c: "length (addToHistory e prev) = Suc (min 9 (length prev))"
    by (simp add: addToHistory_def min.commute)
  have d: "hd (addToHistory e prev) = e"
    by (simp add: addToHistory_def)
  have e: "fold addToHistory [e1, e2, e3, e4, e5, e6, e7, e8, e9, e10, e11, e12] []
       = [e12, e11, e10, e9, e8, e7, e6, e5, e4, e3]"
    by (simp add: addToHistory_def)
  from a b c d e show ?thesis by blast
qed

subsection \<open>Properties of a reload\<close>

lemma tick_plus:
  "n + 2 = Suc (Suc n)" "n + 3 = Suc (Suc (Suc n))" "n + 4 = Suc (Suc (Suc (Suc n)))"
  "n + 5 = Suc (Suc (Suc (Suc (Suc n))))"
  by simp_all

lemma number_or0_id: "number_or0 x = x"
  by (simp add: number_or0_def)

lemma fetchCases_eq:
  "fetchCases env ids acc st =
     (acc @ fetchedRecords env (tick st) ids,
      st\<lparr>calls := calls st @ map GetBusinessData ids,
         timeline := timeline st @ replicate (length ids) Wait,
         consoleErrors := consoleErrors st + failedFetches env (tick st) ids\<rparr>)"
proof (induction ids arbitrary: acc st)
  case Nil
  show ?case by simp
next
  case (Cons k ks)
  show ?case
    by (cases "getBusinessData env (tick st) k")
       (simp_all add: Cons.IH Let_def tick_def called_def consoleError_def)
qed

text \<open>What a reload does to the state, by how far it gets; it never throws.\<close>

lemma loadData_eq:
  "loadData env st =
     (Normal (),
      case reloadKeys env st of
        NotConnected \<Rightarrow> st
      | NoContract \<Rightarrow>
          st\<lparr>isRefreshing := False, calls := calls st @ [GetContractReadOnly],
             timeline := timeline st @ [Wait]\<rparr>
      | ContractFailed e \<Rightarrow>
          st\<lparr>isRefreshing := False, calls := calls st @ [GetContractReadOnly],
             transactionStatus := banner error ''Failed to load data'',
             ui_log := ui_log st @ [SetTransactionStatus (banner error ''Failed to load data''),
                                    SetTimeout 3000],
             timeline := timeline st @ [Wait,
                           Ui (SetTransactionStatus (banner error ''Failed to load data'')),
                           Ui (SetTimeout 3000)]\<rparr>
      | KeysFailed e \<Rightarrow>
          st\<lparr>isRefreshing := False, calls := calls st @ [GetContractReadOnly, GetAllBusinessIds],
             transactionStatus := banner error ''Failed to load data'',
             ui_log := ui_log st @ [SetTransactionStatus (banner error ''Failed to load data''),
                                    SetTimeout 3000],
             timeline := timeline st @ [Wait, Wait,
                           Ui (SetTransactionStatus (banner error ''Failed to load data'')),
                           Ui (SetTimeout 3000)]\<rparr>
      | Keys ids \<Rightarrow>
          st\<lparr>isRefreshing := False,
             calls := calls st @ [GetContractReadOnly, GetAllBusinessIds] @ map GetBusinessData ids,
             timeline := timeline st @ [Wait, Wait] @ replicate (length ids) Wait,
             consoleErrors := consoleErrors st + failedFetches env (tick st + 2) ids,
             cases := fetchedRecords env (tick st + 2) ids,
             operationHistory :=
               addToHistory (refreshedEntry (length (fetchedRecords env (tick st + 2) ids)))
                 (operationHistory st)\<rparr>)"
  by (simp add: loadData_def loadData_try_def loadData_catch_def reloadKeys_def reloadKeysAt_def
        refreshedEntry_def fetchCases_eq Let_def tick_def called_def logOperation_def
        setTimeout_def setTransactionStatus_def
        split: outcome.splits)

lemma loadData_normal: "fst (loadData env st) = Normal ()"
  by (simp add: loadData_eq)



lemma fetched_or_failed:
  "length (fetchedRecords env t ids) + failedFetches env t ids = length ids"
  by (induction ids arbitrary: t) (auto split: outcome.splits)

text \<open>What the state operations do to each field the statements read.\<close>

lemma state_proj:
  "calls (called c st) = calls st @ [c]"
  "calls (setTransactionStatus ts st) = calls st"
  "calls (setTimeout n st) = calls st"
  "calls (logOperation x st) = calls st"
  "tick (called c st) = Suc (tick st)"
  "tick (setTransactionStatus ts st) = tick st"
  "tick (setTimeout n st) = tick st"
  "tick (logOperation x st) = tick st"
  "operationHistory (called c st) = operationHistory st"
  "operationHistory (setTransactionStatus ts st) = operationHistory st"
  "operationHistory (setTimeout n st) = operationHistory st"
  "operationHistory (logOperation x st) = addToHistory x (operationHistory st)"
  "cases (called c st) = cases st"
  "cases (setTransactionStatus ts st) = cases st"
  "cases (setTimeout n st) = cases st"
  "cases (logOperation x st) = cases st"
  "isConnected (called c st) = isConnected st"
  "isConnected (setTransactionStatus ts st) = isConnected st"
  "isConnected (setTimeout n st) = isConnected st"
  "isConnected (logOperation x st) = isConnected st"
  "creatingCase (called c st) = creatingCase st"
  "creatingCase (setTransactionStatus ts st) = creatingCase st"
  "creatingCase (setTimeout n st) = creatingCase st"
  "creatingCase (logOperation x st) = creatingCase st"
  "ui_log (called c st) = ui_log st"
  "ui_log (setTransactionStatus ts st) = ui_log st @ [SetTransactionStatus ts]"
  "ui_log (setTimeout n st) = ui_log st @ [SetTimeout n]"
  "ui_log (logOperation x st) = ui_log st"
  "timeline (called c st) = timeline st @ [Wait]"
  "timeline (setTransactionStatus ts st) = timeline st @ [Ui (SetTransactionStatus ts)]"
  "timeline (setTimeout n st) = timeline st @ [Ui (SetTimeout n)]"
  "timeline (logOperation x st) = timeline st"
  by (simp_all add: tick_def called_def setTransactionStatus_def setTimeout_def logOperation_def)

lemma no_createTx_in_fetches: "filter isCreateTx (map GetBusinessData ids) = []"
  by (induction ids) simp_all

lemma loadData_submissions:
  "filter isCreateTx (calls (snd (loadData env st))) = filter isCreateTx (calls st)"
  by (simp add: loadData_eq no_createTx_in_fetches split: reload_keys.split)

text \<open>The calls, the view events and the timeline of a reload, by how far it gets.\<close>

lemma loadData_calls:
  "calls (snd (loadData env st)) =
     calls st @
     (case reloadKeys env st of
        NotConnected \<Rightarrow> []
      | NoContract \<Rightarrow> [GetContractReadOnly]
      | ContractFailed e \<Rightarrow> [GetContractReadOnly]
      | KeysFailed e \<Rightarrow> [GetContractReadOnly, GetAllBusinessIds]
      | Keys ids \<Rightarrow> [GetContractReadOnly, GetAllBusinessIds] @ map GetBusinessData ids)"
  by (simp add: loadData_eq split: reload_keys.split)

lemma loadData_ui_log:
  "ui_log (snd (loadData env st)) =
     ui_log st @
     (case reloadKeys env st of
        NotConnected \<Rightarrow> []
      | NoContract \<Rightarrow> []
      | ContractFailed e \<Rightarrow>
          [SetTransactionStatus (banner error ''Failed to load data''), SetTimeout 3000]
      | KeysFailed e \<Rightarrow>
          [SetTransactionStatus (banner error ''Failed to load data''), SetTimeout 3000]
      | Keys ids \<Rightarrow> [])"
  by (simp add: loadData_eq split: reload_keys.split)

lemma loadData_timeline:
  "timeline (snd (loadData env st)) =
     timeline st @
     (case reloadKeys env st of
        NotConnected \<Rightarrow> []
      | NoContract \<Rightarrow> [Wait]
      | ContractFailed e \<Rightarrow>
          [Wait, Ui (SetTransactionStatus (banner error ''Failed to load data'')),
           Ui (SetTimeout 3000)]
      | KeysFailed e \<Rightarrow>
          [Wait, Wait, Ui (SetTransactionStatus (banner error ''Failed to load data'')),
           Ui (SetTimeout 3000)]
      | Keys ids \<Rightarrow> [Wait, Wait] @ replicate (length ids) Wait)"
  by (simp add: loadData_eq split: reload_keys.split)

lemma loadData_cases:
  "cases (snd (loadData env st)) =
     (case reloadKeys env st of
        Keys ids \<Rightarrow> fetchedRecords env (tick st + 2) ids
      | KeysFailed e' \<Rightarrow> cases st
      | ContractFailed e' \<Rightarrow> cases st
      | NoContract \<Rightarrow> cases st
      | NotConnected \<Rightarrow> cases st)"
  by (simp add: loadData_eq split: reload_keys.split)

text \<open>Facts for running the definitions on the concrete wallet and ledgers.\<close>

lemmas sample_defs =
  wallet_def ledger_def ledgerVerified_def ledgerRace_def ledgerDown_def ledgerRejected_def
  ledgerNoContract_def ledgerNullish_def ledgerNoValue_def walletFrame_def storedRecord_def

lemmas state_defs =
  tick_def called_def setTransactionStatus_def setTimeout_def logOperation_def consoleError_def
  noAddress_def addressText_def reloadKeys_def reloadKeysAt_def Let_def



lemma show_now: "show_int 1730000000000 = ''1730000000000''"
  by (simp add: show_int_def show_nat.simps)

lemma parseInt_34: "parseInt_or ''34'' 0 = 34"
  by code_simp

text \<open>
  C3. After a reload the snapshot is: the records of exactly those keys whose fetch
  resolved, in the order of the key list, when the key list was fetched (a record whose
  fetch fails is skipped: fetched and failed records together are as many as the keys, and
  no error banner is raised for them); the previous snapshot, unchanged, when the key list
  could not be fetched (then the error banner is raised), when there is no contract or
  when the wallet is not connected. The reload itself never throws.
\<close>

theorem loadData_snapshot:
  "cases (snd (loadData env st)) =
     (case reloadKeys env st of
        Keys ids \<Rightarrow> fetchedRecords env (tick st + 2) ids
      | KeysFailed e \<Rightarrow> cases st
      | ContractFailed e \<Rightarrow> cases st
      | NoContract \<Rightarrow> cases st
      | NotConnected \<Rightarrow> cases st)
   \<and> fst (loadData env st) = Normal ()
   \<and> ui_log (snd (loadData env st)) =
     (case reloadKeys env st of
        Keys ids \<Rightarrow> ui_log st
      | KeysFailed e \<Rightarrow>
          ui_log st @ [SetTransactionStatus (banner error ''Failed to load data''), SetTimeout 3000]
      | ContractFailed e \<Rightarrow>
          ui_log st @ [SetTransactionStatus (banner error ''Failed to load data''), SetTimeout 3000]
      | NoContract \<Rightarrow> ui_log st
      | NotConnected \<Rightarrow> ui_log st)
   \<and> length (fetchedRecords env t ids) + failedFetches env t ids = length ids"
  by (simp add: loadData_eq fetched_or_failed split: reload_keys.splits)

text \<open>
  On the ledger of five keys of which two cannot be fetched, the snapshot is the three
  others; when the key list cannot be fetched, a snapshot of one record stays.
\<close>

theorem loadData_snapshot_witness:
  "reloadKeys ledger wallet = Keys [''case-1'', ''case-2'', ''case-3'', ''case-4'', ''case-5'']
   \<and> map name (cases (snd (loadData ledger wallet))) = [''case-1'', ''case-3'', ''case-5'']
   \<and> ui_log (snd (loadData ledger wallet)) = []
   \<and> reloadKeys ledgerRace wallet = KeysFailed (Message ''network error'')
   \<and> cases (snd (loadData ledgerRace
               (wallet\<lparr>cases := [caseOf 0 ''case-9'' (storedRecord ''Bob'' False)]\<rparr>)))
       = [caseOf 0 ''case-9'' (storedRecord ''Bob'' False)]"
  using loadData_snapshot [of ledger wallet]
    loadData_snapshot [of ledgerRace
      "wallet\<lparr>cases := [caseOf 0 ''case-9'' (storedRecord ''Bob'' False)]\<rparr>"]
  by (simp add: reloadKeys_def reloadKeysAt_def ledger_def ledgerRace_def wallet_def tick_def
        caseOf_def storedRecord_def)

subsection \<open>Properties of the decryption\<close>


text \<open>
  C2. When the wallet is connected and the read of the record resolves with a record that
  is verified, \<^verbatim>\<open>decryptData\<close> returns the stored clear value; the only calls it makes
  are the two reads (no signer, no verifier, no transaction); the snapshot is untouched;
  the success banner with its timer of 2000 ms and one log entry are the other effects.
  A second call that reads the same record returns the same value, again with the two
  reads only.
\<close>

theorem decryptData_verified_read:
  assumes "isConnected st" and "\<not> noAddress (address st)"
    and "getContractReadOnly env (tick st) = Resolved True"
    and "getBusinessData env (Suc (tick st)) businessId = Resolved businessData"
    and "bd_isVerified businessData"
  shows "fst (decryptData env businessId st) = Normal (Some (Num (bd_decryptedValue businessData)))
    \<and> calls (snd (decryptData env businessId st))
        = calls st @ [GetContractReadOnly, GetBusinessData businessId]
    \<and> cases (snd (decryptData env businessId st)) = cases st
    \<and> ui_log (snd (decryptData env businessId st))
        = ui_log st @ [SetTransactionStatus (banner success ''Data already verified''),
                       SetTimeout 2000]
    \<and> operationHistory (snd (decryptData env businessId st))
        = addToHistory (''Data verified for case: '' @ bd_name businessData) (operationHistory st)
    \<and> (getContractReadOnly env (tick st + 2) = Resolved True
        \<and> getBusinessData env (tick st + 3) businessId = Resolved businessData
        \<longrightarrow> fst (decryptData env businessId (snd (decryptData env businessId st)))
              = fst (decryptData env businessId st)
          \<and> calls (snd (decryptData env businessId (snd (decryptData env businessId st))))
              = calls st @ [GetContractReadOnly, GetBusinessData businessId,
                            GetContractReadOnly, GetBusinessData businessId])"
  using assms
  by (simp add: decryptData_def decryptData_begin_def decryptData_fetch_def Let_def tick_def
        called_def setTransactionStatus_def setTimeout_def logOperation_def number_or0_id
        tick_plus)

theorem decryptData_verified_read_witness:
  "isConnected wallet \<and> \<not> noAddress (address wallet)
   \<and> getContractReadOnly ledgerVerified (tick wallet) = Resolved True
   \<and> getBusinessData ledgerVerified (Suc (tick wallet)) ''case-1''
       = Resolved (storedRecord ''case-1'' True)
   \<and> bd_isVerified (storedRecord ''case-1'' True)
   \<and> fst (decryptData ledgerVerified ''case-1'' wallet) = Normal (Some (Num 34))
   \<and> calls (snd (decryptData ledgerVerified ''case-1'' wallet))
       = [GetContractReadOnly, GetBusinessData ''case-1'']
   \<and> fst (decryptData ledgerVerified ''case-1'' (snd (decryptData ledgerVerified ''case-1'' wallet)))
       = Normal (Some (Num 34))
   \<and> calls (snd (decryptData ledgerVerified ''case-1''
                (snd (decryptData ledgerVerified ''case-1'' wallet))))
       = [GetContractReadOnly, GetBusinessData ''case-1'',
          GetContractReadOnly, GetBusinessData ''case-1'']"
proof -
  have h: "isConnected wallet" "\<not> noAddress (address wallet)"
    "getContractReadOnly ledgerVerified (tick wallet) = Resolved True"
    "getBusinessData ledgerVerified (Suc (tick wallet)) ''case-1''
       = Resolved (storedRecord ''case-1'' True)"
    "bd_isVerified (storedRecord ''case-1'' True)"
    by (simp_all add: sample_defs noAddress_def)
  have h2: "getContractReadOnly ledgerVerified (tick wallet + 2) = Resolved True"
    "getBusinessData ledgerVerified (tick wallet + 3) ''case-1''
       = Resolved (storedRecord ''case-1'' True)"
    by (simp_all add: sample_defs)
  have v: "bd_decryptedValue (storedRecord ''case-1'' True) = 34" "calls wallet = []"
    by (simp_all add: sample_defs)
  from decryptData_verified_read [OF h] h h2 v show ?thesis
    by simp
qed




text \<open>
  How the two last parts of a decryption complete. The catch block completes normally
  unless its condition cannot be evaluated; what is returned after the verifier is
  \<^verbatim>\<open>Number(clearValue)\<close>, whatever the clear values hold for the handle.
\<close>

lemma decryptData_catch_completion:
  "fst (decryptData_catch env e st) = (if unreadable e then Throw typeError else Normal None)"
  by (simp add: decryptData_catch_def Let_def case_prod_beta loadData_normal)

lemma decryptData_verified_completion:
  "fst (decryptData_verified env vf st) =
     (case verifyDecryption env (vf_tick vf) [vf_handle vf] (vf_contractAddress vf)
             (vf_businessId vf) of
        Rejected e \<Rightarrow> Throw e
      | Resolved clearValues \<Rightarrow> Normal (Some (toNumber (clearValues (vf_handle vf)))))"
  by (simp add: decryptData_verified_def Let_def case_prod_beta loadData_normal
        split: outcome.split)

text \<open>
  C6. \<^verbatim>\<open>decryptData\<close> can throw, and can return what is neither an integer nor null. On
  the wallet and the ledger whose verifier rejects with \<^verbatim>\<open>undefined\<close> (the fifth call of
  the invocation), the catch block throws the \<^verbatim>\<open>TypeError\<close> of reading \<^verbatim>\<open>e.message\<close>:
  the invocation rejects with it and has set no banner. On the ledger whose verifier
  resolves with clear values that lack the handle, the invocation returns \<^verbatim>\<open>NaN\<close>.
\<close>

theorem decryptData_rejects:
  "verifyDecryption ledgerNullish 4 [''handle-case-1''] ''0xC0DE'' ''case-1'' = Rejected Nullish
   \<and> fst (decryptData ledgerNullish ''case-1'' wallet) = Throw typeError
   \<and> newUi wallet (snd (decryptData ledgerNullish ''case-1'' wallet)) = []
   \<and> fst (decryptData ledgerNoValue ''case-1'' wallet) = Normal (Some NaN)"
  by (simp add: decryptData_def decryptData_begin_def decryptData_fetch_def
        decryptData_settle_def decryptData_verified_def decryptData_catch_def loadData_eq
        sample_defs state_defs unreadable_def newUi_def toNumber_def)

subsection \<open>Properties of the creation\<close>

text \<open>
  The catch and the finally of a create make no call, write nothing to the operation log and
  leave the case list alone.
\<close>

lemma createCase_rest_fields:
  "calls (snd (createCase_rest env fr st)) = calls (snd (createCase_try env fr st))"
  "operationHistory (snd (createCase_rest env fr st)) =
     operationHistory (snd (createCase_try env fr st))"
  "cases (snd (createCase_rest env fr st)) = cases (snd (createCase_try env fr st))"
  by (cases "createCase_try env fr st"; cases "fst (createCase_try env fr st)";
      simp add: createCase_rest_def createCase_catch_def setTimeout_def
        setTransactionStatus_def)+


text \<open>How the try block of \<^verbatim>\<open>createCase\<close> completes, from the answers of the collaborators.\<close>

lemma createCase_try_completion:
  "fst (createCase_try env fr st) =
     (case getContractWithSigner env (cf_tick fr) of
        Rejected e \<Rightarrow> Throw e
      | Resolved contract \<Rightarrow>
          if \<not> contract then Throw (Message ''Failed to get contract with signer'')
          else
            (case encrypt env (tick st) (cf_contractAddress fr) (cf_address fr)
                    (parseInt_or (nc_age (cf_newCaseData fr)) 0) of
               Rejected e \<Rightarrow> Throw e
             | Resolved encryptedResult \<Rightarrow>
                 (case createBusinessData env (Suc (tick st))
                         (''case-'' @ show_int (dateNow env (tick st)))
                         (nc_name (cf_newCaseData fr))
                         (encryptedData encryptedResult) (encryptedProof encryptedResult)
                         (parseInt_or (nc_age (cf_newCaseData fr)) 0) 0
                         (nc_diseaseType (cf_newCaseData fr)) of
                    Rejected e \<Rightarrow> Throw e
                  | Resolved tx \<Rightarrow>
                      (case txWait env (Suc (Suc (tick st))) of
                         Rejected e \<Rightarrow> Throw e
                       | Resolved u \<Rightarrow> Normal ()))))"
  by (simp add: createCase_try_def Let_def loadData_eq tick_def called_def setTimeout_def
        setTransactionStatus_def logOperation_def
        split: outcome.split)

lemma createCase_begin_wallet:
  "fst (createCase_begin wallet) = Some walletFrame"
  "isConnected (snd (createCase_begin wallet))" "tick (snd (createCase_begin wallet)) = 1"
  "operationHistory (snd (createCase_begin wallet)) = []"
  "cases (snd (createCase_begin wallet)) = []"
  "nc_name (cf_newCaseData walletFrame) = ''Alice''"
  by (simp_all add: createCase_begin_def sample_defs state_defs)

lemma createCase_try_wallet:
  "fst (createCase_try ledger walletFrame (snd (createCase_begin wallet))) = Normal ()"
  "fst (createCase_try ledgerRejected walletFrame (snd (createCase_begin wallet)))
     = Throw (Message ''user rejected transaction'')"
  by (simp_all add: createCase_try_completion createCase_begin_wallet ledger_def
        ledgerRejected_def)





lemma isDigit_facts:
  assumes "isDigit c"
  shows "\<not> isWhiteSpace c" "c \<noteq> CHR ''-''" "c \<noteq> CHR ''+''" "c \<noteq> CHR ''x''" "c \<noteq> CHR ''X''"
    "isRadixDigit 10 c"
  using assms
  by (auto simp: isDigit_def isWhiteSpace_def isRadixDigit_def digitVal_def Let_def)

lemma parseInt_digits:
  assumes "\<forall>c\<in>set s. isDigit c"
  shows "parseInt s = (if s = [] then None else Some (int (digitsVal 10 s)))"
proof -
  have w: "dropWhile isWhiteSpace s = s"
    using assms by (cases s) (auto dest: isDigit_facts)
  have sg: "\<not> startsWith s ''-''" "\<not> startsWith s ''+''"
    using assms by (cases s; auto dest: isDigit_facts)+
  have hx: "\<not> startsWith s ''0x''" "\<not> startsWith s ''0X''"
    using assms
    by (cases s; cases "tl s"; auto dest: isDigit_facts)+
  have tk: "takeWhile (isRadixDigit 10) s = s"
    using assms by (simp add: takeWhile_eq_all_conv isDigit_facts)
  show ?thesis
    by (simp add: parseInt_def w sg hx tk)
qed

lemma parseInt_form:
  "parseInt (filter isDigit v) = None \<or> (\<exists>n. parseInt (filter isDigit v) = Some (int n))"
  by (simp add: parseInt_digits)


lemma createCase_begin_connected:
  assumes "isConnected st" and "\<not> noAddress (address st)"
  shows "createCase_begin st =
     (Some \<lparr>cf_address = addressText (address st), cf_newCaseData = newCaseData st,
             cf_contractAddress = contractAddress st, cf_tick = tick st\<rparr>,
      called GetContractWithSigner
        (setTransactionStatus (banner pending ''Encrypting patient data with FHE...'')
           (st\<lparr>creatingCase := True\<rparr>)))"
  using assms
  by (simp add: createCase_begin_def Let_def tick_def called_def setTransactionStatus_def)

text \<open>What the catch and the finally of a create add to the view and to the timeline.\<close>

lemma createCase_rest_ui:
  "ui_log (snd (createCase_rest env fr st)) =
     ui_log (snd (createCase_try env fr st)) @
     (case fst (createCase_try env fr st) of
        Normal v \<Rightarrow> []
      | Throw e \<Rightarrow>
          if unreadable e then []
          else [SetTransactionStatus (banner error (errorMessage e)), SetTimeout 3000])"
  "timeline (snd (createCase_rest env fr st)) =
     timeline (snd (createCase_try env fr st)) @
     (case fst (createCase_try env fr st) of
        Normal v \<Rightarrow> []
      | Throw e \<Rightarrow>
          if unreadable e then []
          else [Ui (SetTransactionStatus (banner error (errorMessage e))), Ui (SetTimeout 3000)])"
  by (cases "createCase_try env fr st"; cases "fst (createCase_try env fr st)";
      simp add: createCase_rest_def createCase_catch_def setTimeout_def
        setTransactionStatus_def)+

text \<open>The calls of the rest of a create whose signer contract was obtained.\<close>

lemma createCase_rest_calls:
  assumes "getContractWithSigner env (cf_tick fr) = Resolved True"
  shows "\<exists>rest. calls (snd (createCase_rest env fr st))
           = calls st @ [Encrypt (cf_contractAddress fr) (cf_address fr)
                           (parseInt_or (nc_age (cf_newCaseData fr)) 0)] @ rest"
    and "encrypt env (tick st) (cf_contractAddress fr) (cf_address fr)
           (parseInt_or (nc_age (cf_newCaseData fr)) 0) = Resolved er \<Longrightarrow>
         \<exists>rest. calls (snd (createCase_rest env fr st))
           = calls st @ [Encrypt (cf_contractAddress fr) (cf_address fr)
                           (parseInt_or (nc_age (cf_newCaseData fr)) 0),
                         CreateBusinessData (''case-'' @ show_int (dateNow env (tick st)))
                           (nc_name (cf_newCaseData fr)) (encryptedData er) (encryptedProof er)
                           (parseInt_or (nc_age (cf_newCaseData fr)) 0) 0
                           (nc_diseaseType (cf_newCaseData fr))] @ rest"
    and "\<exists>rest. ui_log (snd (createCase_rest env fr st)) = ui_log st @ rest"
  using assms
  by (simp_all add: createCase_rest_fields createCase_rest_ui createCase_try_def Let_def
        case_prod_beta loadData_normal loadData_calls loadData_ui_log state_proj
        split: outcome.split)

text \<open>
  C10. When the age of the form parses to NaN or to 0, a create that passed the wallet guard
  and obtained the signer contract raises no validation error: its first banner is the
  pending banner of the encryption, it calls \<^verbatim>\<open>encrypt\<close> with the value 0 and, when that
  resolves, \<^verbatim>\<open>createBusinessData\<close> with the resulting ciphertext and proof and with 0 as
  both public values. The age that \<^verbatim>\<open>handleChange\<close> stores is the digits of what was typed,
  and such a string parses to NaN or to a natural number: for the form, an age that is not
  a positive integer is one that parses to NaN or to 0.
\<close>

theorem createCase_unparsable_age:
  assumes "isConnected st" and "\<not> noAddress (address st)"
    and "getContractWithSigner env (tick st) = Resolved True"
    and "parseInt (nc_age (newCaseData st)) = None \<or> parseInt (nc_age (newCaseData st)) = Some 0"
  shows "(\<exists>rest. ui_log (snd (createCase env st))
            = ui_log st @ SetTransactionStatus (banner pending ''Encrypting patient data with FHE...'')
                # rest)
    \<and> (\<exists>rest. calls (snd (createCase env st))
            = calls st @ [GetContractWithSigner,
                          Encrypt (contractAddress st) (addressText (address st)) 0] @ rest)
    \<and> (encrypt env (Suc (tick st)) (contractAddress st) (addressText (address st)) 0 = Resolved er
        \<longrightarrow> (\<exists>rest. calls (snd (createCase env st))
            = calls st @ [GetContractWithSigner,
                          Encrypt (contractAddress st) (addressText (address st)) 0,
                          CreateBusinessData (''case-'' @ show_int (dateNow env (Suc (tick st))))
                            (nc_name (newCaseData st)) (encryptedData er) (encryptedProof er)
                            0 0 (nc_diseaseType (newCaseData st))] @ rest))
    \<and> nc_age (handleChange ''age'' v caseData) = filter isDigit v
    \<and> (parseInt (filter isDigit v) = None \<or> (\<exists>n. parseInt (filter isDigit v) = Some (int n)))"
proof -
  let ?fr = "\<lparr>cf_address = addressText (address st), cf_newCaseData = newCaseData st,
             cf_contractAddress = contractAddress st, cf_tick = tick st\<rparr>"
  let ?st1 = "called GetContractWithSigner
        (setTransactionStatus (banner pending ''Encrypting patient data with FHE...'')
           (st\<lparr>creatingCase := True\<rparr>))"
  have age0: "parseInt_or (nc_age (newCaseData st)) 0 = 0"
    using assms(4) by (auto simp: parseInt_or_def)
  have c: "createCase env st = createCase_rest env ?fr ?st1"
    by (simp add: createCase_def createCase_begin_connected [OF assms(1,2)])
  have s: "getContractWithSigner env (cf_tick ?fr) = Resolved True"
    using assms(3) by simp
  have t: "tick ?st1 = Suc (tick st)"
    by (simp add: tick_def called_def setTransactionStatus_def)
  have p1: "ui_log ?st1 = ui_log st @ [SetTransactionStatus
                                         (banner pending ''Encrypting patient data with FHE...'')]"
    "calls ?st1 = calls st @ [GetContractWithSigner]"
    by (simp_all add: called_def setTransactionStatus_def)
  from createCase_rest_calls(3) [OF s, of ?st1]
  have u: "\<exists>rest. ui_log (snd (createCase env st))
            = ui_log st @ SetTransactionStatus (banner pending ''Encrypting patient data with FHE...'')
                # rest"
    by (simp add: c p1)
  from createCase_rest_calls(1) [OF s, of ?st1]
  have a: "\<exists>rest. calls (snd (createCase env st))
            = calls st @ [GetContractWithSigner,
                          Encrypt (contractAddress st) (addressText (address st)) 0] @ rest"
    by (simp add: c age0 p1)
  have b: "encrypt env (Suc (tick st)) (contractAddress st) (addressText (address st)) 0 = Resolved er
        \<longrightarrow> (\<exists>rest. calls (snd (createCase env st))
            = calls st @ [GetContractWithSigner,
                          Encrypt (contractAddress st) (addressText (address st)) 0,
                          CreateBusinessData (''case-'' @ show_int (dateNow env (Suc (tick st))))
                            (nc_name (newCaseData st)) (encryptedData er) (encryptedProof er)
                            0 0 (nc_diseaseType (newCaseData st))] @ rest)"
  proof
    assume e: "encrypt env (Suc (tick st)) (contractAddress st) (addressText (address st)) 0 = Resolved er"
    have "encrypt env (tick ?st1) (cf_contractAddress ?fr) (cf_address ?fr)
           (parseInt_or (nc_age (cf_newCaseData ?fr)) 0) = Resolved er"
      using e by (simp add: t age0)
    from createCase_rest_calls(2) [OF s this]
    show "\<exists>rest. calls (snd (createCase env st))
            = calls st @ [GetContractWithSigner,
                          Encrypt (contractAddress st) (addressText (address st)) 0,
                          CreateBusinessData (''case-'' @ show_int (dateNow env (Suc (tick st))))
                            (nc_name (newCaseData st)) (encryptedData er) (encryptedProof er)
                            0 0 (nc_diseaseType (newCaseData st))] @ rest"
      by (simp add: c age0 t p1)
  qed
  have f: "nc_age (handleChange ''age'' v caseData) = filter isDigit v"
    by (simp add: handleChange_def)
  from u a b f parseInt_form [of v] show ?thesis
    by blast
qed


text \<open>The user types \<^verbatim>\<open>0\<close> (or letters only, which leaves the field empty).\<close>

theorem createCase_unparsable_age_witness:
  "isConnected (walletWithAge ''0'') \<and> \<not> noAddress (address (walletWithAge ''0''))
   \<and> getContractWithSigner ledger (tick (walletWithAge ''0'')) = Resolved True
   \<and> nc_age (newCaseData (walletWithAge ''0'')) = ''0''
   \<and> nc_age (newCaseData (walletWithAge ''abc'')) = []
   \<and> parseInt ''0'' = Some 0 \<and> parseInt [] = None
   \<and> (\<exists>rest. calls (snd (createCase ledger (walletWithAge ''0'')))
         = [GetContractWithSigner, Encrypt ''0xC0DE'' ''0xA11CE'' 0,
            CreateBusinessData ''case-1730000000000'' ''Alice'' ''ciphertext'' ''proof'' 0 0
              ''Cystic Fibrosis''] @ rest)"
proof -
  have age: "nc_age (newCaseData (walletWithAge ''0'')) = ''0''"
    "nc_age (newCaseData (walletWithAge ''abc'')) = []"
    by (simp_all add: walletWithAge_def handleChange_def isDigit_def)
  have p: "parseInt ''0'' = Some 0" "parseInt [] = None"
    by (simp_all add: parseInt_def isWhiteSpace_def isRadixDigit_def digitVal_def digitsVal_def)
  have h: "isConnected (walletWithAge ''0'')" "\<not> noAddress (address (walletWithAge ''0''))"
    "getContractWithSigner ledger (tick (walletWithAge ''0'')) = Resolved True"
    by (simp_all add: walletWithAge_def wallet_def ledger_def noAddress_def)
  have z: "parseInt (nc_age (newCaseData (walletWithAge ''0''))) = None
           \<or> parseInt (nc_age (newCaseData (walletWithAge ''0''))) = Some 0"
    by (simp add: age p)
  have e: "encrypt ledger (Suc (tick (walletWithAge ''0''))) (contractAddress (walletWithAge ''0''))
             (addressText (address (walletWithAge ''0''))) 0
           = Resolved \<lparr>encryptedData = ''ciphertext'', encryptedProof = ''proof''\<rparr>"
    by (simp add: ledger_def)
  have v: "calls (walletWithAge ''0'') = []" "contractAddress (walletWithAge ''0'') = ''0xC0DE''"
    "addressText (address (walletWithAge ''0'')) = ''0xA11CE''"
    "nc_name (newCaseData (walletWithAge ''0'')) = ''Alice''"
    "nc_diseaseType (newCaseData (walletWithAge ''0'')) = ''Cystic Fibrosis''"
    "dateNow ledger (Suc (tick (walletWithAge ''0''))) = 1730000000000"
    by (simp_all add: walletWithAge_def wallet_def ledger_def addressText_def handleChange_def)
  note t = createCase_unparsable_age [OF h z, of "\<lparr>encryptedData = ''ciphertext'', encryptedProof = ''proof''\<rparr>",
             THEN conjunct2, THEN conjunct2, THEN conjunct1, rule_format, OF e]
  have "\<exists>rest. calls (snd (createCase ledger (walletWithAge ''0'')))
         = [GetContractWithSigner, Encrypt ''0xC0DE'' ''0xA11CE'' 0,
            CreateBusinessData ''case-1730000000000'' ''Alice'' ''ciphertext'' ''proof'' 0 0
              ''Cystic Fibrosis''] @ rest"
    using t by (simp add: v show_now)
  with h age p show ?thesis
    by simp
qed

subsection \<open>Properties of invocations in flight\<close>

lemma run_append: "run env (evs @ evs') sys = run env evs' (run env evs sys)"
  by (simp add: run_def)

lemma run_Nil: "run env [] sys = sys"
  by (simp add: run_def)

lemma run_Cons: "run env (ev # evs) sys = run env evs (step env ev sys)"
  by (simp add: run_def)

lemma decryptData_begin_connected:
  assumes "isConnected st" and "\<not> noAddress (address st)"
  shows "decryptData_begin k st =
     (Some \<lparr>df_businessId = k, df_contractAddress = contractAddress st, df_tick = tick st\<rparr>,
      called GetContractReadOnly st)"
  using assms by (simp add: decryptData_begin_def)

text \<open>A fetch that finds the record unverified and obtains signer and handle calls the verifier.\<close>

lemma decryptData_fetch_unverified:
  assumes "\<forall>t. getContractReadOnly env t = Resolved True"
    and "\<forall>t. getBusinessData env t (df_businessId fr) = Resolved businessData"
    and "\<not> bd_isVerified businessData"
    and "\<forall>t. getContractWithSigner env t = Resolved True"
    and "\<forall>t. getEncryptedValue env t (df_businessId fr) = Resolved h"
  shows "decryptData_fetch env fr st =
     (Verifying \<lparr>vf_businessId = df_businessId fr, vf_contractAddress = df_contractAddress fr,
                 vf_handle = h, vf_name = bd_name businessData, vf_tick = tick st + 3\<rparr>,
      st\<lparr>calls := calls st @ [GetBusinessData (df_businessId fr), GetContractWithSigner,
                               GetEncryptedValue (df_businessId fr),
                               VerifyDecryption [h] (df_contractAddress fr) (df_businessId fr)],
         timeline := timeline st @ [Wait, Wait, Wait, Wait]\<rparr>)"
  using assms
  by (simp add: decryptData_fetch_def Let_def tick_def called_def)

lemma requests_rounds:
  assumes "\<forall>t. getContractReadOnly env t = Resolved True"
    and "\<forall>t. getBusinessData env t k = Resolved businessData"
    and "\<not> bd_isVerified businessData"
    and "\<forall>t. getContractWithSigner env t = Resolved True"
    and "\<forall>t. getEncryptedValue env t k = Resolved h"
    and "isConnected st" and "\<not> noAddress (address st)"
  shows "isConnected (fst (run env (requests n k) (st, [])))
    \<and> address (fst (run env (requests n k) (st, []))) = address st
    \<and> length (snd (run env (requests n k) (st, []))) = n
    \<and> (\<forall>t \<in> set (snd (run env (requests n k) (st, []))). isRoundFor k t)"
proof (induction n)
  case 0
  show ?case using assms(6) by (simp add: run_Nil)
next
  case (Suc n)
  obtain st1 ts1 where r: "run env (requests n k) (st, []) = (st1, ts1)"
    by (cases "run env (requests n k) (st, [])")
  from Suc r have c: "isConnected st1" "address st1 = address st" "length ts1 = n"
    "\<forall>t \<in> set ts1. isRoundFor k t"
    by simp_all
  let ?fr = "\<lparr>df_businessId = k, df_contractAddress = contractAddress st1, df_tick = tick st1\<rparr>"
  have b: "step env (InvokeDecrypt k) (st1, ts1) = (called GetContractReadOnly st1, ts1 @ [DecryptFetch ?fr])"
    using c assms(7) by (simp add: step_def launch_def decryptData_begin_connected)
  have f: "decryptData_fetch env ?fr (called GetContractReadOnly st1) =
     (Verifying \<lparr>vf_businessId = k, vf_contractAddress = contractAddress st1,
                 vf_handle = h, vf_name = bd_name businessData,
                 vf_tick = tick (called GetContractReadOnly st1) + 3\<rparr>,
      (called GetContractReadOnly st1)\<lparr>calls := calls (called GetContractReadOnly st1)
         @ [GetBusinessData k, GetContractWithSigner, GetEncryptedValue k,
            VerifyDecryption [h] (contractAddress st1) k],
         timeline := timeline (called GetContractReadOnly st1) @ [Wait, Wait, Wait, Wait]\<rparr>)"
    using decryptData_fetch_unverified [of env ?fr businessData h "called GetContractReadOnly st1"] assms(1-5)
    by simp
  have s: "step env (Settle n) (called GetContractReadOnly st1, ts1 @ [DecryptFetch ?fr]) =
     ((called GetContractReadOnly st1)\<lparr>calls := calls (called GetContractReadOnly st1)
         @ [GetBusinessData k, GetContractWithSigner, GetEncryptedValue k,
            VerifyDecryption [h] (contractAddress st1) k],
         timeline := timeline (called GetContractReadOnly st1) @ [Wait, Wait, Wait, Wait]\<rparr>,
      ts1 @ [DecryptRound \<lparr>vf_businessId = k, vf_contractAddress = contractAddress st1,
                 vf_handle = h, vf_name = bd_name businessData,
                 vf_tick = tick (called GetContractReadOnly st1) + 3\<rparr>])"
    using c(3) by (simp add: step_def settle_def f nth_append list_update_append)
  have "run env (requests (Suc n) k) (st, []) =
     ((called GetContractReadOnly st1)\<lparr>calls := calls (called GetContractReadOnly st1)
         @ [GetBusinessData k, GetContractWithSigner, GetEncryptedValue k,
            VerifyDecryption [h] (contractAddress st1) k],
         timeline := timeline (called GetContractReadOnly st1) @ [Wait, Wait, Wait, Wait]\<rparr>,
      ts1 @ [DecryptRound \<lparr>vf_businessId = k, vf_contractAddress = contractAddress st1,
                 vf_handle = h, vf_name = bd_name businessData,
                 vf_tick = tick (called GetContractReadOnly st1) + 3\<rparr>])"
    by (simp add: run_append r run_Cons run_Nil b s)
  then show ?case
    using c by (simp add: called_def)
qed


lemma step_ClickDecrypt_gate:
  "isVerified caseItem \<or> fheIsDecrypting st \<Longrightarrow> step env (ClickDecrypt caseItem) (st, ts) = (st, ts)"
  by (simp add: step_def)

lemma step_ClickDecrypt_launch:
  assumes "\<not> isVerified caseItem" and "\<not> fheIsDecrypting st"
    and "isConnected st" and "\<not> noAddress (address st)"
  shows "step env (ClickDecrypt caseItem) (st, ts) =
     (called GetContractReadOnly st,
      ts @ [DecryptFetch \<lparr>df_businessId = ''case-'' @ show_int (id_c caseItem),
                           df_contractAddress = contractAddress st, df_tick = tick st\<rparr>])"
  using assms
  by (simp add: step_def launch_def handleDecrypt_begin_def decryptData_begin_connected)

lemma settle_fetch_unverified:
  assumes "i < length ts" and "ts ! i = DecryptFetch fr"
    and "\<forall>t. getContractReadOnly env t = Resolved True"
    and "\<forall>t. getBusinessData env t (df_businessId fr) = Resolved businessData"
    and "\<not> bd_isVerified businessData"
    and "\<forall>t. getContractWithSigner env t = Resolved True"
    and "\<forall>t. getEncryptedValue env t (df_businessId fr) = Resolved h"
  shows "step env (Settle i) (st, ts) =
     (st\<lparr>calls := calls st @ [GetBusinessData (df_businessId fr), GetContractWithSigner,
                               GetEncryptedValue (df_businessId fr),
                               VerifyDecryption [h] (df_contractAddress fr) (df_businessId fr)],
         timeline := timeline st @ [Wait, Wait, Wait, Wait]\<rparr>,
      ts[i := DecryptRound \<lparr>vf_businessId = df_businessId fr,
                             vf_contractAddress = df_contractAddress fr,
                             vf_handle = h, vf_name = bd_name businessData,
                             vf_tick = tick st + 3\<rparr>])"
  using assms(1,2) decryptData_fetch_unverified [OF assms(3-7), of st]
  by (simp add: step_def settle_def)

lemma ledger_unverified:
  "\<forall>t. getContractReadOnly ledger t = Resolved True"
  "\<forall>t. getBusinessData ledger t ''case-1'' = Resolved (storedRecord ''case-1'' False)"
  "\<not> bd_isVerified (storedRecord ''case-1'' False)"
  "\<forall>t. getContractWithSigner ledger t = Resolved True"
  "\<forall>t. getEncryptedValue ledger t ''case-1'' = Resolved ''handle-case-1''"
  by (simp_all add: ledger_def storedRecord_def)

lemma firstCase_facts:
  "id_c firstCase = 1" "\<not> isVerified firstCase" "show_int 1 = ''1''"
  by (simp_all add: firstCase_def caseOf_def storedRecord_def parseInt_or_def parseInt_def
        isWhiteSpace_def isRadixDigit_def digitVal_def digitsVal_def show_int_def show_nat.simps)

lemma wallet_facts:
  "isConnected wallet" "\<not> noAddress (address wallet)" "\<not> fheIsDecrypting wallet"
  "\<not> creatingCase wallet" "calls wallet = []" "contractAddress wallet = ''0xC0DE''"
  by (simp_all add: wallet_def noAddress_def)

text \<open>
  C4. Nothing in \<^verbatim>\<open>decryptData\<close> tracks the decryptions in flight: when the ledger keeps
  answering that the record of a key is not verified, \<open>n\<close> invocations for that key, each
  made while the earlier ones are in flight, leave \<open>n\<close> verifier rounds for the key in
  flight. The only gates are those of the detail modal: a click on the decrypt button
  starts nothing when the displayed case is verified or while the hook reports
  \<^verbatim>\<open>isDecrypting\<close>; any other click of a connected wallet starts an invocation, whatever
  is in flight.
\<close>

theorem decrypt_rounds_not_bounded:
  assumes "\<forall>t. getContractReadOnly env t = Resolved True"
    and "\<forall>t. getBusinessData env t k = Resolved businessData"
    and "\<not> bd_isVerified businessData"
    and "\<forall>t. getContractWithSigner env t = Resolved True"
    and "\<forall>t. getEncryptedValue env t k = Resolved h"
    and "isConnected st" and "\<not> noAddress (address st)"
  shows "length (filter (isRoundFor k) (snd (run env (requests n k) (st, [])))) = n
    \<and> (isVerified caseItem \<or> fheIsDecrypting st \<longrightarrow>
         step env (ClickDecrypt caseItem) (st, ts) = (st, ts))
    \<and> (\<not> isVerified caseItem \<and> \<not> fheIsDecrypting st \<longrightarrow>
         step env (ClickDecrypt caseItem) (st, ts) =
           (called GetContractReadOnly st,
            ts @ [DecryptFetch \<lparr>df_businessId = ''case-'' @ show_int (id_c caseItem),
                                 df_contractAddress = contractAddress st, df_tick = tick st\<rparr>]))"
proof -
  from requests_rounds [OF assms, of n]
  have "length (snd (run env (requests n k) (st, []))) = n"
    and "\<forall>t \<in> set (snd (run env (requests n k) (st, []))). isRoundFor k t"
    by simp_all
  then have "length (filter (isRoundFor k) (snd (run env (requests n k) (st, [])))) = n"
    by simp
  then show ?thesis
    using step_ClickDecrypt_gate [of caseItem st env ts]
      step_ClickDecrypt_launch [OF _ _ assms(6,7), of caseItem env ts]
    by blast
qed

text \<open>Three invocations for the first key on the ledger; the modal of a verified case.\<close>

theorem decrypt_rounds_not_bounded_witness:
  "(\<forall>t. getContractReadOnly ledger t = Resolved True)
   \<and> (\<forall>t. getBusinessData ledger t ''case-1'' = Resolved (storedRecord ''case-1'' False))
   \<and> \<not> bd_isVerified (storedRecord ''case-1'' False)
   \<and> (\<forall>t. getContractWithSigner ledger t = Resolved True)
   \<and> (\<forall>t. getEncryptedValue ledger t ''case-1'' = Resolved ''handle-case-1'')
   \<and> isConnected wallet \<and> \<not> noAddress (address wallet)
   \<and> length (filter (isRoundFor ''case-1'')
        (snd (run ledger [InvokeDecrypt ''case-1'', Settle 0, InvokeDecrypt ''case-1'', Settle 1,
                          InvokeDecrypt ''case-1'', Settle 2] (wallet, [])))) = 3
   \<and> step ledger (ClickDecrypt (firstCase\<lparr>isVerified := True\<rparr>)) (wallet, []) = (wallet, [])"
proof -
  have r: "requests 3 ''case-1'' = [InvokeDecrypt ''case-1'', Settle 0, InvokeDecrypt ''case-1'',
             Settle 1, InvokeDecrypt ''case-1'', Settle 2]"
    by (simp add: numeral_3_eq_3)
  note t = decrypt_rounds_not_bounded [OF ledger_unverified wallet_facts(1,2),
             of 3 "firstCase\<lparr>isVerified := True\<rparr>" "[]"]
  from t have a: "length (filter (isRoundFor ''case-1'')
        (snd (run ledger (requests 3 ''case-1'') (wallet, [])))) = 3"
    by (rule conjunct1)
  from t have b: "step ledger (ClickDecrypt (firstCase\<lparr>isVerified := True\<rparr>)) (wallet, []) = (wallet, [])"
    by simp
  from a b ledger_unverified wallet_facts(1,2) show ?thesis
    by (simp add: r)
qed

text \<open>
  Two clicks on the decrypt button of the unverified first case, the second before the
  first invocation has reached the verifier (so the hook reports nothing yet): both
  invocations go on to the verifier, and two rounds for the key are in flight.
\<close>

theorem decrypt_rounds_not_bounded_counterexample:
  "length (filter (isRoundFor ''case-1'')
     (snd (run ledger [ClickDecrypt firstCase, ClickDecrypt firstCase, Settle 0, Settle 1]
             (wallet, [])))) = 2
   \<and> filter isVerifyCall
       (calls (fst (run ledger [ClickDecrypt firstCase, ClickDecrypt firstCase, Settle 0, Settle 1]
                      (wallet, []))))
     = [VerifyDecryption [''handle-case-1''] ''0xC0DE'' ''case-1'',
        VerifyDecryption [''handle-case-1''] ''0xC0DE'' ''case-1'']"
proof -
  let ?st1 = "called GetContractReadOnly wallet"
  let ?st2 = "called GetContractReadOnly ?st1"
  let ?fr0 = "\<lparr>df_businessId = ''case-1'', df_contractAddress = ''0xC0DE'', df_tick = tick wallet\<rparr>"
  let ?fr1 = "\<lparr>df_businessId = ''case-1'', df_contractAddress = ''0xC0DE'', df_tick = tick ?st1\<rparr>"
  have s1: "step ledger (ClickDecrypt firstCase) (wallet, []) = (?st1, [DecryptFetch ?fr0])"
    using step_ClickDecrypt_launch [OF firstCase_facts(2) wallet_facts(3,1,2), of ledger "[]"]
    by (simp add: firstCase_facts wallet_facts)
  have w1: "\<not> fheIsDecrypting ?st1" "isConnected ?st1" "\<not> noAddress (address ?st1)"
    "contractAddress ?st1 = ''0xC0DE''"
    using wallet_facts by (simp_all add: called_def)
  have s2: "step ledger (ClickDecrypt firstCase) (?st1, [DecryptFetch ?fr0])
              = (?st2, [DecryptFetch ?fr0, DecryptFetch ?fr1])"
    using step_ClickDecrypt_launch [OF firstCase_facts(2) w1(1,2,3), of ledger "[DecryptFetch ?fr0]"]
    by (simp add: firstCase_facts w1)
  let ?c = "[GetBusinessData ''case-1'', GetContractWithSigner, GetEncryptedValue ''case-1'',
             VerifyDecryption [''handle-case-1''] ''0xC0DE'' ''case-1'']"
  let ?st3 = "?st2\<lparr>calls := calls ?st2 @ ?c, timeline := timeline ?st2 @ [Wait, Wait, Wait, Wait]\<rparr>"
  let ?st4 = "?st3\<lparr>calls := calls ?st3 @ ?c, timeline := timeline ?st3 @ [Wait, Wait, Wait, Wait]\<rparr>"
  let ?vf0 = "\<lparr>vf_businessId = ''case-1'', vf_contractAddress = ''0xC0DE'',
               vf_handle = ''handle-case-1'', vf_name = bd_name (storedRecord ''case-1'' False),
               vf_tick = tick ?st2 + 3\<rparr>"
  let ?vf1 = "\<lparr>vf_businessId = ''case-1'', vf_contractAddress = ''0xC0DE'',
               vf_handle = ''handle-case-1'', vf_name = bd_name (storedRecord ''case-1'' False),
               vf_tick = tick ?st3 + 3\<rparr>"
  have s3: "step ledger (Settle 0) (?st2, [DecryptFetch ?fr0, DecryptFetch ?fr1])
              = (?st3, [DecryptRound ?vf0, DecryptFetch ?fr1])"
    using settle_fetch_unverified [of 0 "[DecryptFetch ?fr0, DecryptFetch ?fr1]" ?fr0 ledger
            "storedRecord ''case-1'' False" "''handle-case-1''" ?st2] ledger_unverified
    by simp
  have s4: "step ledger (Settle 1) (?st3, [DecryptRound ?vf0, DecryptFetch ?fr1])
              = (?st4, [DecryptRound ?vf0, DecryptRound ?vf1])"
    using settle_fetch_unverified [of 1 "[DecryptRound ?vf0, DecryptFetch ?fr1]" ?fr1 ledger
            "storedRecord ''case-1'' False" "''handle-case-1''" ?st3] ledger_unverified
    by simp
  have r: "run ledger [ClickDecrypt firstCase, ClickDecrypt firstCase, Settle 0, Settle 1] (wallet, [])
             = (?st4, [DecryptRound ?vf0, DecryptRound ?vf1])"
    by (simp only: run_Cons run_Nil s1 s2 s3 s4)
  show ?thesis
    unfolding r by (simp add: called_def wallet_facts)
qed

lemma loadData_creatingCase: "creatingCase (snd (loadData env st)) = creatingCase st"
  by (simp add: loadData_eq split: reload_keys.split)

lemma decryptData_begin_creatingCase:
  "creatingCase (snd (decryptData_begin k st)) = creatingCase st"
  by (simp add: decryptData_begin_def called_def setTimeout_def setTransactionStatus_def)

lemma handleDecrypt_begin_creatingCase:
  "creatingCase (snd (handleDecrypt_begin c st)) = creatingCase st"
  by (simp add: handleDecrypt_begin_def decryptData_begin_creatingCase)

lemma decryptData_fetch_creatingCase:
  "creatingCase (snd (decryptData_fetch env fr st)) = creatingCase st"
  by (simp add: decryptData_fetch_def Let_def called_def setTimeout_def setTransactionStatus_def
        logOperation_def split: outcome.split)

lemma decryptData_catch_creatingCase:
  "creatingCase (snd (decryptData_catch env e st)) = creatingCase st"
  by (simp add: decryptData_catch_def Let_def loadData_eq setTimeout_def setTransactionStatus_def
        split: reload_keys.split)

lemma decryptData_settle_creatingCase:
  "creatingCase (snd (decryptData_settle env vf st)) = creatingCase st"
proof (cases "decryptData_verified env vf st")
  case (Pair c st1)
  have v: "creatingCase st1 = creatingCase st"
    using Pair
    by (auto simp: decryptData_verified_def Let_def loadData_eq setTimeout_def
          setTransactionStatus_def logOperation_def split: outcome.splits reload_keys.splits)
  show ?thesis
    using Pair v by (cases c) (simp_all add: decryptData_settle_def decryptData_catch_creatingCase)
qed

lemma createCase_begin_creatingCase:
  "(fst (createCase_begin st) = None \<longrightarrow> creatingCase (snd (createCase_begin st)) = creatingCase st)
   \<and> (fst (createCase_begin st) \<noteq> None \<longrightarrow> creatingCase (snd (createCase_begin st)))"
  by (simp add: createCase_begin_def Let_def called_def setTimeout_def setTransactionStatus_def)

lemma filter_remove_nth:
  "i < length ts \<Longrightarrow> \<not> P (ts ! i) \<Longrightarrow> filter P (remove_nth i ts) = filter P ts"
proof -
  assume a: "i < length ts" "\<not> P (ts ! i)"
  have "ts = take i ts @ ts ! i # drop (Suc i) ts"
    using a(1) by (simp add: id_take_nth_drop)
  then have "filter P ts = filter P (take i ts) @ filter P (ts ! i # drop (Suc i) ts)"
    by (metis filter_append)
  with a(2) show ?thesis
    by (simp add: remove_nth_def)
qed

lemma filter_remove_nth_length:
  "i < length ts \<Longrightarrow> P (ts ! i) \<Longrightarrow> Suc (length (filter P (remove_nth i ts))) = length (filter P ts)"
proof -
  assume a: "i < length ts" "P (ts ! i)"
  have "ts = take i ts @ ts ! i # drop (Suc i) ts"
    using a(1) by (simp add: id_take_nth_drop)
  then have "filter P ts = filter P (take i ts) @ filter P (ts ! i # drop (Suc i) ts)"
    by (metis filter_append)
  with a(2) show ?thesis
    by (simp add: remove_nth_def)
qed

lemma filter_list_update:
  "i < length ts \<Longrightarrow> \<not> P (ts ! i) \<Longrightarrow> \<not> P x \<Longrightarrow> filter P (ts[i := x]) = filter P ts"
proof -
  assume a: "i < length ts" "\<not> P (ts ! i)" "\<not> P x"
  have t: "ts = take i ts @ ts ! i # drop (Suc i) ts"
    using a(1) by (simp add: id_take_nth_drop)
  have u: "ts[i := x] = take i ts @ x # drop (Suc i) ts"
    using a(1) by (simp add: upd_conv_take_nth_drop)
  have "filter P ts = filter P (take i ts) @ filter P (ts ! i # drop (Suc i) ts)"
    using t by (metis filter_append)
  with a(2,3) u show ?thesis
    by simp
qed

lemma settle_singleFlight:
  assumes "singleFlight (st, ts)"
  shows "singleFlight (settle env i (st, ts))"
proof (cases "i < length ts")
  case False
  with assms show ?thesis by (simp add: settle_def)
next
  case True
  note i = True
  from assms have inv: "length (filter isCreateTask ts) \<le> 1"
    "filter isCreateTask ts = [] \<or> creatingCase st"
    by (simp_all add: singleFlight_def)
  show ?thesis
  proof (cases "ts ! i")
    case (CreateTask fr)
    then have "Suc (length (filter isCreateTask (remove_nth i ts))) = length (filter isCreateTask ts)"
      using i by (simp add: filter_remove_nth_length)
    with inv(1) have "length (filter isCreateTask (remove_nth i ts)) = 0"
      by arith
    then have "filter isCreateTask (remove_nth i ts) = []"
      by simp
    with i CreateTask show ?thesis
      by (simp add: settle_def singleFlight_def)
  next
    case (DecryptFetch fr)
    then have n: "\<not> isCreateTask (ts ! i)" by simp
    obtain f st1 where f: "decryptData_fetch env fr st = (f, st1)"
      by (cases "decryptData_fetch env fr st")
    have c1: "creatingCase st1 = creatingCase st"
      using decryptData_fetch_creatingCase [of env fr st] f by simp
    show ?thesis
    proof (cases f)
      case (Returned r)
      with i DecryptFetch f inv c1 n show ?thesis
        by (simp add: settle_def singleFlight_def filter_remove_nth)
    next
      case (Thrown e)
      with i DecryptFetch f inv c1 n decryptData_catch_creatingCase [of env e st1] show ?thesis
        by (simp add: settle_def singleFlight_def filter_remove_nth)
    next
      case (Verifying vf)
      with i DecryptFetch f inv c1 n show ?thesis
        by (simp add: settle_def singleFlight_def filter_list_update)
    qed
  next
    case (DecryptRound vf)
    then have n: "\<not> isCreateTask (ts ! i)" by simp
    with i DecryptRound inv decryptData_settle_creatingCase [of env vf st] show ?thesis
      by (simp add: settle_def singleFlight_def filter_remove_nth)
  qed
qed

lemma launch_decrypt_singleFlight:
  assumes "singleFlight (st, ts)" and "creatingCase (snd r) = creatingCase st"
  shows "singleFlight (launch DecryptFetch r ts)"
  using assms by (cases r; cases "fst r") (auto simp: launch_def singleFlight_def)

lemma submit_singleFlight:
  assumes "singleFlight (st, ts)"
  shows "singleFlight (step env ClickSubmit (st, ts))"
proof (cases "submitDisabled st")
  case True
  with assms show ?thesis by (simp add: step_def)
next
  case False
  then have nc: "\<not> creatingCase st" by (simp add: submitDisabled_def)
  with assms have e: "filter isCreateTask ts = []" by (simp add: singleFlight_def)
  obtain r st1 where b: "createCase_begin st = (r, st1)"
    by (cases "createCase_begin st")
  show ?thesis
  proof (cases r)
    case None
    with b False e show ?thesis
      by (simp add: step_def launch_def singleFlight_def)
  next
    case (Some fr)
    with b createCase_begin_creatingCase [of st] have "creatingCase st1" by simp
    with Some b False e show ?thesis
      by (simp add: step_def launch_def singleFlight_def)
  qed
qed

lemma step_singleFlight:
  assumes "ev \<noteq> InvokeCreate" and "singleFlight sys"
  shows "singleFlight (step env ev sys)"
proof (cases sys)
  case (Pair st ts)
  show ?thesis
  proof (cases ev)
    case InvokeCreate
    with assms(1) show ?thesis by simp
  next
    case ClickSubmit
    with Pair assms(2) submit_singleFlight [of st ts env] show ?thesis by simp
  next
    case (InvokeDecrypt k)
    with Pair assms(2) launch_decrypt_singleFlight [of st ts "decryptData_begin k st"]
      decryptData_begin_creatingCase [of k st]
    show ?thesis by (simp add: step_def)
  next
    case (ClickDecrypt c)
    with Pair assms(2) launch_decrypt_singleFlight [of st ts "handleDecrypt_begin c st"]
      handleDecrypt_begin_creatingCase [of c st]
    show ?thesis by (simp add: step_def)
  next
    case (Settle i)
    with Pair assms(2) settle_singleFlight [of st ts env i] show ?thesis
      by (simp add: step_def)
  qed
qed

lemma run_singleFlight:
  "InvokeCreate \<notin> set evs \<Longrightarrow> singleFlight sys \<Longrightarrow> singleFlight (run env evs sys)"
proof (induction evs arbitrary: sys)
  case Nil
  then show ?case by (simp add: run_Nil)
next
  case (Cons ev evs)
  from Cons.prems have "ev \<noteq> InvokeCreate" and rest: "InvokeCreate \<notin> set evs"
    by auto
  with Cons.prems(2) have "singleFlight (step env ev sys)"
    by (simp add: step_singleFlight)
  with rest Cons.IH show ?case
    by (simp add: run_Cons)
qed

lemma submit_refused:
  assumes "singleFlight sys" and "filter isCreateTask (snd sys) \<noteq> []"
  shows "step env ClickSubmit sys = sys"
  using assms by (cases sys) (auto simp: singleFlight_def step_def submitDisabled_def)


text \<open>The transactions that the rest of a create submits: one, once the encryption resolved.\<close>

lemma createCase_rest_submissions:
  "filter isCreateTx (calls (snd (createCase_rest env fr st))) =
     filter isCreateTx (calls st) @
     (case getContractWithSigner env (cf_tick fr) of
        Rejected e \<Rightarrow> []
      | Resolved contract \<Rightarrow>
          if \<not> contract then []
          else
            (case encrypt env (tick st) (cf_contractAddress fr) (cf_address fr)
                    (parseInt_or (nc_age (cf_newCaseData fr)) 0) of
               Rejected e \<Rightarrow> []
             | Resolved encryptedResult \<Rightarrow>
                 [CreateBusinessData (''case-'' @ show_int (dateNow env (tick st)))
                    (nc_name (cf_newCaseData fr))
                    (encryptedData encryptedResult) (encryptedProof encryptedResult)
                    (parseInt_or (nc_age (cf_newCaseData fr)) 0) 0
                    (nc_diseaseType (cf_newCaseData fr))]))"
  by (simp add: createCase_rest_fields createCase_try_def Let_def case_prod_beta
        loadData_normal loadData_submissions state_proj
        split: outcome.split)

lemma createCase_rest_one_submission:
  "length (filter isCreateTx (calls (snd (createCase_rest env fr st))))
     \<le> Suc (length (filter isCreateTx (calls st)))"
  by (simp add: createCase_rest_submissions split: outcome.split)

text \<open>
  C1. When \<^verbatim>\<open>createCase\<close> is invoked through the submit button only, at most one create is
  in flight at any time and \<^verbatim>\<open>creatingCase\<close> is set while it is; a click on the button
  while a create is in flight is refused: it changes nothing and starts nothing. One
  invocation submits at most one creation transaction.
\<close>

theorem submit_button_single_flight:
  assumes "InvokeCreate \<notin> set evs" and "singleFlight sys"
  shows "singleFlight (run env evs sys)
    \<and> (filter isCreateTask (snd (run env evs sys)) \<noteq> [] \<longrightarrow>
         step env ClickSubmit (run env evs sys) = run env evs sys)
    \<and> length (filter isCreateTx (calls (snd (createCase_rest env fr st))))
         \<le> Suc (length (filter isCreateTx (calls st)))"
  using run_singleFlight [OF assms, of env] submit_refused [of "run env evs sys" env]
    createCase_rest_one_submission [of env fr st]
  by blast

lemma ledger_create:
  "getContractWithSigner ledger t = Resolved True"
  "encrypt ledger t c a v = Resolved \<lparr>encryptedData = ''ciphertext'', encryptedProof = ''proof''\<rparr>"
  "dateNow ledger t = 1730000000000"
  by (simp_all add: ledger_def)

lemma wallet_form:
  "newCaseData wallet = \<lparr>nc_name = ''Alice'', nc_age = ''34'',
                          nc_diseaseType = ''Cystic Fibrosis'', nc_symptoms = []\<rparr>"
  "address wallet = Some ''0xA11CE''" "\<not> submitDisabled wallet"
  by (simp_all add: wallet_def submitDisabled_def)

text \<open>
  Two clicks on the submit button, the second before the first create has gone on: one
  create is in flight, the second click changed nothing, and when the create has run to
  its end one transaction has been submitted.
\<close>

theorem submit_button_single_flight_witness:
  "InvokeCreate \<notin> set [ClickSubmit]
   \<and> singleFlight (wallet, [])
   \<and> snd (run ledger [ClickSubmit] (wallet, [])) = [CreateTask walletFrame]
   \<and> step ledger ClickSubmit (run ledger [ClickSubmit] (wallet, [])) = run ledger [ClickSubmit] (wallet, [])
   \<and> run ledger [ClickSubmit, ClickSubmit] (wallet, []) = run ledger [ClickSubmit] (wallet, [])
   \<and> filter isCreateTx (calls (fst (run ledger [ClickSubmit, ClickSubmit, Settle 0] (wallet, []))))
       = [CreateBusinessData ''case-1730000000000'' ''Alice'' ''ciphertext'' ''proof'' 34 0
            ''Cystic Fibrosis'']"
proof -
  let ?st1 = "called GetContractWithSigner
        (setTransactionStatus (banner pending ''Encrypting patient data with FHE...'')
           (wallet\<lparr>creatingCase := True\<rparr>))"
  have h1: "InvokeCreate \<notin> set [ClickSubmit]" by simp
  have h2: "singleFlight (wallet, [])" by (simp add: singleFlight_def)
  have fr: "\<lparr>cf_address = addressText (address wallet), cf_newCaseData = newCaseData wallet,
             cf_contractAddress = contractAddress wallet, cf_tick = tick wallet\<rparr> = walletFrame"
    by (simp add: walletFrame_def wallet_def addressText_def tick_def)
  have s1: "step ledger ClickSubmit (wallet, []) = (?st1, [CreateTask walletFrame])"
    using createCase_begin_connected [OF wallet_facts(1,2)] wallet_form(3)
    by (simp add: step_def launch_def fr)
  have r1: "run ledger [ClickSubmit] (wallet, []) = (?st1, [CreateTask walletFrame])"
    by (simp add: run_Cons run_Nil s1)
  have ne: "filter isCreateTask (snd (run ledger [ClickSubmit] (wallet, []))) \<noteq> []"
    by (simp add: r1)
  note t = submit_button_single_flight [OF h1 h2, of ledger, THEN conjunct2, THEN conjunct1,
             rule_format, OF ne]
  have r2: "run ledger [ClickSubmit, ClickSubmit] (wallet, []) = run ledger [ClickSubmit] (wallet, [])"
    using t by (simp add: run_Cons run_Nil)
  have s3: "run ledger [ClickSubmit, ClickSubmit, Settle 0] (wallet, [])
              = (snd (createCase_rest ledger walletFrame ?st1), [])"
    using r2 r1 by (simp add: run_Cons run_Nil step_def settle_def remove_nth_def)
  have c: "filter isCreateTx (calls (snd (createCase_rest ledger walletFrame ?st1)))
       = [CreateBusinessData ''case-1730000000000'' ''Alice'' ''ciphertext'' ''proof'' 34 0
            ''Cystic Fibrosis'']"
    by (simp add: createCase_rest_submissions ledger_create walletFrame_def wallet_form
          wallet_facts parseInt_34 show_now called_def setTransactionStatus_def)
  from h1 h2 r1 t r2 s3 c show ?thesis
    by simp
qed

text \<open>
  \<^verbatim>\<open>createCase\<close> itself has no guard against a second invocation: invoked twice before
  the first has gone on, two creates are in flight, and when both have run to their end two
  creation transactions with the same data have been submitted.
\<close>

theorem submit_button_single_flight_counterexample:
  "length (filter isCreateTask (snd (run ledger [InvokeCreate, InvokeCreate] (wallet, [])))) = 2
   \<and> filter isCreateTx
       (calls (fst (run ledger [InvokeCreate, InvokeCreate, Settle 0, Settle 0] (wallet, []))))
     = [CreateBusinessData ''case-1730000000000'' ''Alice'' ''ciphertext'' ''proof'' 34 0
          ''Cystic Fibrosis'',
        CreateBusinessData ''case-1730000000000'' ''Alice'' ''ciphertext'' ''proof'' 34 0
          ''Cystic Fibrosis'']"
proof -
  let ?st1 = "called GetContractWithSigner
        (setTransactionStatus (banner pending ''Encrypting patient data with FHE...'')
           (wallet\<lparr>creatingCase := True\<rparr>))"
  let ?fr2 = "\<lparr>cf_address = addressText (address ?st1), cf_newCaseData = newCaseData ?st1,
             cf_contractAddress = contractAddress ?st1, cf_tick = tick ?st1\<rparr>"
  let ?st2 = "called GetContractWithSigner
        (setTransactionStatus (banner pending ''Encrypting patient data with FHE...'')
           (?st1\<lparr>creatingCase := True\<rparr>))"
  let ?st3 = "snd (createCase_rest ledger walletFrame ?st2)"
  let ?st4 = "snd (createCase_rest ledger ?fr2 ?st3)"
  have fr: "\<lparr>cf_address = addressText (address wallet), cf_newCaseData = newCaseData wallet,
             cf_contractAddress = contractAddress wallet, cf_tick = tick wallet\<rparr> = walletFrame"
    by (simp add: walletFrame_def wallet_def addressText_def tick_def)
  have s1: "step ledger InvokeCreate (wallet, []) = (?st1, [CreateTask walletFrame])"
    using createCase_begin_connected [OF wallet_facts(1,2)]
    by (simp add: step_def launch_def fr)
  have w1: "isConnected ?st1" "\<not> noAddress (address ?st1)"
    using wallet_facts by (simp_all add: called_def setTransactionStatus_def)
  have s2: "step ledger InvokeCreate (?st1, [CreateTask walletFrame])
              = (?st2, [CreateTask walletFrame, CreateTask ?fr2])"
    using createCase_begin_connected [OF w1]
    by (simp add: step_def launch_def)
  have r2: "run ledger [InvokeCreate, InvokeCreate] (wallet, [])
              = (?st2, [CreateTask walletFrame, CreateTask ?fr2])"
    by (simp only: run_Cons run_Nil s1 s2)
  have s3: "step ledger (Settle 0) (?st2, [CreateTask walletFrame, CreateTask ?fr2])
              = (?st3, [CreateTask ?fr2])"
    by (simp add: step_def settle_def remove_nth_def)
  have s4: "step ledger (Settle 0) (?st3, [CreateTask ?fr2]) = (?st4, [])"
    by (simp add: step_def settle_def remove_nth_def)
  have r4: "run ledger [InvokeCreate, InvokeCreate, Settle 0, Settle 0] (wallet, []) = (?st4, [])"
    by (simp only: run_Cons run_Nil s1 s2 s3 s4)
  have c: "filter isCreateTx (calls ?st4)
     = [CreateBusinessData ''case-1730000000000'' ''Alice'' ''ciphertext'' ''proof'' 34 0
          ''Cystic Fibrosis'',
        CreateBusinessData ''case-1730000000000'' ''Alice'' ''ciphertext'' ''proof'' 34 0
          ''Cystic Fibrosis'']"
    by (simp add: createCase_rest_submissions ledger_create walletFrame_def wallet_form
          wallet_facts addressText_def parseInt_34 show_now called_def setTransactionStatus_def)
  show ?thesis
    unfolding r2 r4 using c by simp
qed

subsection \<open>Properties of the banner\<close>

lemma timerNext_append: "timerNext n ms \<Longrightarrow> timerNext n (ms @ ms')"
  by (induction n ms rule: timerNext.induct) simp_all

lemma paired_append: "paired ms \<Longrightarrow> paired ms' \<Longrightarrow> paired (ms @ ms')"
  by (induction ms rule: paired.induct) (auto simp: timerNext_append split: phase.splits)

lemma paired_waits: "paired (replicate n Wait)"
  by (induction n) simp_all

lemma pairedFrom_iff:
  "pairedFrom st st' = (\<exists>ms. timeline st' = timeline st @ ms \<and> paired ms)"
  by (auto simp: pairedFrom_def newTimeline_def)

lemma pairedFrom_trans:
  "pairedFrom st st1 \<Longrightarrow> pairedFrom st1 st2 \<Longrightarrow> pairedFrom st st2"
  by (auto simp: pairedFrom_iff paired_append)

lemma loadData_paired: "pairedFrom st (snd (loadData env st))"
  by (simp add: pairedFrom_iff loadData_timeline paired_waits banner_def
        split: reload_keys.split)

lemma createCase_begin_paired: "pairedFrom st (snd (createCase_begin st))"
  by (simp add: pairedFrom_iff createCase_begin_def Let_def state_proj banner_def)

lemma createCase_try_timeline:
  "\<exists>ms. timeline (snd (createCase_try env fr st)) = timeline st @ ms \<and> paired ms"
  by (simp add: createCase_try_def Let_def case_prod_beta loadData_normal loadData_timeline
        state_proj banner_def paired_waits
        split: outcome.split reload_keys.split)

lemma createCase_rest_paired: "pairedFrom st (snd (createCase_rest env fr st))"
proof -
  obtain ms where ms: "timeline (snd (createCase_try env fr st)) = timeline st @ ms" "paired ms"
    using createCase_try_timeline by blast
  have "paired (case fst (createCase_try env fr st) of
        Normal v \<Rightarrow> []
      | Throw e \<Rightarrow>
          if unreadable e then []
          else [Ui (SetTransactionStatus (banner error (errorMessage e))), Ui (SetTimeout 3000)])"
    by (simp add: banner_def split: completion.split)
  with ms show ?thesis
    by (auto simp: pairedFrom_iff createCase_rest_ui(2) intro: paired_append)
qed


lemma createCase_paired: "pairedFrom st (snd (createCase env st))"
proof (cases "createCase_begin st")
  case (Pair r st1)
  have b: "pairedFrom st st1"
    using createCase_begin_paired [of st] Pair by simp
  show ?thesis
  proof (cases r)
    case None
    with Pair b show ?thesis by (simp add: createCase_def)
  next
    case (Some fr)
    with Pair have "createCase env st = createCase_rest env fr st1"
      by (simp add: createCase_def)
    with b createCase_rest_paired [of st1 env fr] show ?thesis
      by (auto intro: pairedFrom_trans)
  qed
qed

lemma decryptData_begin_paired: "pairedFrom st (snd (decryptData_begin businessId st))"
  by (simp add: pairedFrom_iff decryptData_begin_def state_proj banner_def)

lemma decryptData_fetch_paired: "pairedFrom st (snd (decryptData_fetch env fr st))"
  by (simp add: pairedFrom_iff decryptData_fetch_def Let_def state_proj banner_def
        split: outcome.split)

lemma decryptData_catch_paired: "pairedFrom st (snd (decryptData_catch env e st))"
  by (simp add: pairedFrom_iff decryptData_catch_def Let_def case_prod_beta loadData_normal
        loadData_timeline state_proj banner_def paired_waits paired_append
        split: reload_keys.split)

lemma decryptData_verified_paired: "pairedFrom st (snd (decryptData_verified env vf st))"
  by (simp add: pairedFrom_iff decryptData_verified_def Let_def case_prod_beta loadData_normal
        loadData_timeline state_proj banner_def paired_waits paired_append
        split: outcome.split reload_keys.split)

lemma decryptData_settle_paired: "pairedFrom st (snd (decryptData_settle env vf st))"
proof (cases "decryptData_verified env vf st")
  case (Pair c st1)
  have b: "pairedFrom st st1"
    using decryptData_verified_paired [of st env vf] Pair by simp
  show ?thesis
  proof (cases c)
    case (Normal r)
    with Pair b show ?thesis by (simp add: decryptData_settle_def)
  next
    case (Throw e)
    with Pair have "decryptData_settle env vf st = decryptData_catch env e st1"
      by (simp add: decryptData_settle_def)
    with b decryptData_catch_paired [of st1 env e] show ?thesis
      by (auto intro: pairedFrom_trans)
  qed
qed

lemma decryptData_paired: "pairedFrom st (snd (decryptData env businessId st))"
proof (cases "decryptData_begin businessId st")
  case (Pair r st1)
  have b: "pairedFrom st st1"
    using decryptData_begin_paired [of st businessId] Pair by simp
  show ?thesis
  proof (cases r)
    case None
    with Pair b show ?thesis by (simp add: decryptData_def)
  next
    case (Some fr)
    obtain f st2 where f: "decryptData_fetch env fr st1 = (f, st2)"
      by (cases "decryptData_fetch env fr st1")
    have b2: "pairedFrom st st2"
      using b decryptData_fetch_paired [of st1 env fr] f
      by (auto intro: pairedFrom_trans)
    show ?thesis
    proof (cases f)
      case (Returned v)
      with Pair Some f b2 show ?thesis by (simp add: decryptData_def)
    next
      case (Thrown e)
      with Pair Some f have "decryptData env businessId st = decryptData_catch env e st2"
        by (simp add: decryptData_def)
      with b2 decryptData_catch_paired [of st2 env e] show ?thesis
        by (auto intro: pairedFrom_trans)
    next
      case (Verifying vf)
      with Pair Some f have "decryptData env businessId st = decryptData_settle env vf st2"
        by (simp add: decryptData_def)
      with b2 decryptData_settle_paired [of st2 env vf] show ?thesis
        by (auto intro: pairedFrom_trans)
    qed
  qed
qed

lemma testAvailability_paired:
  "fst (testAvailability_try env st) = Normal () \<longrightarrow>
     pairedFrom st (snd (testAvailability env st))"
  by (simp add: pairedFrom_iff testAvailability_def testAvailability_try_def
        testAvailability_catch_def Let_def state_proj banner_def
        split: outcome.split)

lemma covered_advance:
  assumes "covered d"
  shows "covered (advance l d)"
proof (cases "list_ex (\<lambda>x. x \<le> d_clock d + l) (d_pending d)")
  case True
  then show ?thesis by (simp add: covered_def advance_def)
next
  case False
  then have "filter (\<lambda>x. d_clock d + l < x) (d_pending d) = d_pending d"
    by (simp add: list_ex_iff not_le)
  with assms False show ?thesis
    by (auto simp: covered_def advance_def split: option.splits)
qed

lemma covered_schedules: "covered d \<Longrightarrow> covered (schedules n d)"
  by (auto simp: covered_def schedules_def list_ex_iff split: option.splits)

lemma covered_showsBanner:
  "status ts = pending \<Longrightarrow> covered (showsBanner ts d)"
  "delayOf (status ts) = Some n \<Longrightarrow> covered (schedules n (showsBanner ts d))"
  by (auto simp: covered_def showsBanner_def schedules_def split: option.splits)

lemma paired_timely: "paired ms \<Longrightarrow> covered d \<Longrightarrow> timely ls ms d"
proof (induction "length ms" arbitrary: ms ls d rule: less_induct)
  case less
  show ?case
  proof (cases ms)
    case Nil
    with less.prems show ?thesis by simp
  next
    case (Cons m ms')
    show ?thesis
    proof (cases m)
      case Wait
      with Cons less.prems have "paired ms'" by simp
      with less.hyps [of ms'] Cons Wait less.prems show ?thesis
        by (simp add: covered_advance)
    next
      case (Ui u)
      show ?thesis
      proof (cases u)
        case (SetTimeout n)
        with Cons Ui less.prems have "paired ms'" by simp
        with less.hyps [of ms'] Cons Ui SetTimeout less.prems show ?thesis
          by (simp add: covered_schedules)
      next
        case (SetTransactionStatus ts)
        with Cons Ui less.prems have p: "paired ms'" by simp
        show ?thesis
        proof (cases "status ts")
          case pending
          with less.hyps [of ms'] p Cons Ui SetTransactionStatus show ?thesis
            by (simp add: covered_showsBanner)
        next
          case success
          with Cons Ui SetTransactionStatus less.prems have "timerNext 2000 ms'" by simp
          then obtain ms'' where m: "ms' = Ui (SetTimeout 2000) # ms''"
            by (cases "(2000::nat, ms')" rule: timerNext.cases) auto
          with p have "paired ms''" by simp
          with less.hyps [of ms''] m Cons Ui SetTransactionStatus success show ?thesis
            by (simp add: covered_showsBanner)
        next
          case error
          with Cons Ui SetTransactionStatus less.prems have "timerNext 3000 ms'" by simp
          then obtain ms'' where m: "ms' = Ui (SetTimeout 3000) # ms''"
            by (cases "(3000::nat, ms')" rule: timerNext.cases) auto
          with p have "paired ms''" by simp
          with less.hyps [of ms''] m Cons Ui SetTransactionStatus error show ?thesis
            by (simp add: covered_showsBanner)
        qed
      qed
    qed
  qed
qed

lemma covered_hidden:
  "covered d \<and> d_shown d = Some (p, since) \<and> delayOf p = Some n \<and> since + n \<le> d_clock d + l
     \<longrightarrow> d_shown (advance l d) = None"
  by (auto simp: covered_def advance_def list_ex_iff)

text \<open>
  What the failures of a create show, when the thrown value can be read, and the failure
  of a decryption that shows nothing.
\<close>

lemma createCase_failure_banner:
  "(fst (createCase_begin st) = None \<longrightarrow>
      newUi st (snd (createCase env st))
        = [SetTransactionStatus (banner error ''Please connect wallet first''), SetTimeout 3000])
   \<and> (fst (createCase_try env fr st) = Throw e \<and> \<not> unreadable e \<longrightarrow>
        ui_log (snd (createCase_rest env fr st))
          = ui_log (snd (createCase_try env fr st))
            @ [SetTransactionStatus (banner error (errorMessage e)), SetTimeout 3000])"
  by (simp add: newUi_def createCase_def createCase_begin_def createCase_rest_ui Let_def
        state_proj)

lemma decryptData_no_contract:
  "isConnected st \<and> \<not> noAddress (address st)
     \<and> getContractReadOnly env (tick st) = Resolved False \<longrightarrow>
   decryptData env businessId st = (Normal None, called GetContractReadOnly st)"
  by (simp add: decryptData_def decryptData_begin_def decryptData_fetch_def)

lemma pairedFrom_timely:
  "pairedFrom st st' \<and> covered d \<longrightarrow> timely ls (newTimeline st st') d"
  by (simp add: pairedFrom_def paired_timely)

text \<open>
  C8. In what \<^verbatim>\<open>createCase\<close>, \<^verbatim>\<open>decryptData\<close> and \<^verbatim>\<open>loadData\<close> add to the timeline
  (also in the parts of an invocation that run after an \<^verbatim>\<open>await\<close>), every error banner is
  set together with the request of a timer of 3000 ms and every success banner with one of
  2000 ms, before any wait; the same holds for an availability check whose try block
  completes. Timers are never cancelled and each hides the banner on display, so from a
  display whose banner is covered, and whatever time each wait takes, the banner on
  display is covered at every wait and at the end of such a timeline; and a covered
  banner is gone once its delay has passed, if not before. A create that the wallet guard
  stops shows the error banner of the guard with its timer of 3000 ms, and a create whose
  try block throws a value that can be read shows the error banner of \<open>errorMessage\<close> with
  its timer of 3000 ms. Not every failure raises a banner: a \<^verbatim>\<open>decryptData\<close> that obtains
  no contract returns null and touches nothing but the call history.
\<close>

theorem banners_and_timers:
  "pairedFrom st (snd (createCase env st))
   \<and> pairedFrom st (snd (createCase_rest env fr st))
   \<and> pairedFrom st (snd (decryptData env businessId st))
   \<and> pairedFrom st (snd (decryptData_settle env vf st))
   \<and> pairedFrom st (snd (loadData env st))
   \<and> (fst (testAvailability_try env st) = Normal () \<longrightarrow>
        pairedFrom st (snd (testAvailability env st)))
   \<and> (pairedFrom st st' \<and> covered d \<longrightarrow> timely ls (newTimeline st st') d)
   \<and> (covered d \<and> d_shown d = Some (p, since) \<and> delayOf p = Some n
        \<and> since + n \<le> d_clock d + l \<longrightarrow> d_shown (advance l d) = None)
   \<and> (fst (createCase_begin st) = None \<longrightarrow>
        newUi st (snd (createCase env st))
          = [SetTransactionStatus (banner error ''Please connect wallet first''), SetTimeout 3000])
   \<and> (fst (createCase_try env fr st) = Throw e \<and> \<not> unreadable e \<longrightarrow>
        ui_log (snd (createCase_rest env fr st))
          = ui_log (snd (createCase_try env fr st))
            @ [SetTransactionStatus (banner error (errorMessage e)), SetTimeout 3000])
   \<and> (isConnected st \<and> \<not> noAddress (address st)
        \<and> getContractReadOnly env (tick st) = Resolved False \<longrightarrow>
        decryptData env businessId st = (Normal None, called GetContractReadOnly st))"
  using createCase_paired [of st env] createCase_rest_paired [of st env fr]
    decryptData_paired [of st env businessId] decryptData_settle_paired [of st env vf]
    loadData_paired [of st env] testAvailability_paired [of env st]
    pairedFrom_timely [of st st' d ls] covered_hidden [of d p since n l]
    createCase_failure_banner [of st env fr e] decryptData_no_contract [of st env businessId]
  by simp

text \<open>
  Two runs on the wallet, every wait taking 100 ms: the create whose reload cannot fetch
  the key list, and the availability check on the ledger that is up.
\<close>

lemma race_timeline:
  "newTimeline wallet (snd (createCase ledgerRace wallet)) =
     [Ui (SetTransactionStatus (banner pending ''Encrypting patient data with FHE...'')),
      Wait, Wait, Wait,
      Ui (SetTransactionStatus (banner pending ''Storing encrypted data on blockchain...'')),
      Wait,
      Ui (SetTransactionStatus (banner success ''Patient case created successfully!'')),
      Ui (SetTimeout 2000),
      Wait, Wait,
      Ui (SetTransactionStatus (banner error ''Failed to load data'')),
      Ui (SetTimeout 3000)]"
  by (simp add: newTimeline_def createCase_def createCase_begin_def Let_def createCase_rest_ui
        createCase_try_def case_prod_beta loadData_normal loadData_timeline state_proj
        reloadKeys_def reloadKeysAt_def ledgerRace_def ledger_def wallet_def noAddress_def)

lemma ready_timeline:
  "newTimeline wallet (snd (testAvailability ledger wallet)) =
     [Wait, Wait,
      Ui (SetTransactionStatus (banner success ''FHE System is available and ready!'')),
      Ui (SetTimeout 2000)]"
  by (simp add: newTimeline_def testAvailability_def testAvailability_try_def Let_def
        state_proj ledger_def wallet_def)

lemma race_display:
  "replay [100, 100, 100, 100, 100, 100] (newTimeline wallet (snd (createCase ledgerRace wallet)))
     blank = \<lparr>d_clock = 600, d_pending = [2400, 3600], d_shown = Some (error, 600)\<rparr>"
  by (simp add: race_timeline blank_def advance_def showsBanner_def schedules_def banner_def)

lemma ready_display:
  "replay [100, 100] (newTimeline wallet (snd (testAvailability ledger wallet))) blank
     = \<lparr>d_clock = 200, d_pending = [2200], d_shown = Some (success, 200)\<rparr>"
  by (simp add: ready_timeline blank_def advance_def showsBanner_def schedules_def banner_def)

text \<open>
  The availability check on the ledger that is up, the create whose reload fails (its
  error banner, set at 600 ms, is gone 3000 ms later), the create that the wallet guard
  stops, the create whose transaction the signer refuses, and the decryption on the
  ledger without a contract.
\<close>

theorem banners_and_timers_witness:
  "fst (testAvailability_try ledger wallet) = Normal ()
   \<and> pairedFrom wallet (snd (testAvailability ledger wallet))
   \<and> pairedFrom wallet (snd (createCase ledgerRace wallet)) \<and> covered blank
   \<and> timely [100, 100, 100, 100, 100, 100]
        (newTimeline wallet (snd (createCase ledgerRace wallet))) blank
   \<and> covered (replay [100, 100, 100, 100, 100, 100]
        (newTimeline wallet (snd (createCase ledgerRace wallet))) blank)
   \<and> d_shown (replay [100, 100, 100, 100, 100, 100]
        (newTimeline wallet (snd (createCase ledgerRace wallet))) blank) = Some (error, 600)
   \<and> delayOf error = Some 3000
   \<and> 600 + 3000 \<le> d_clock (replay [100, 100, 100, 100, 100, 100]
        (newTimeline wallet (snd (createCase ledgerRace wallet))) blank) + 3000
   \<and> d_shown (advance 3000 (replay [100, 100, 100, 100, 100, 100]
        (newTimeline wallet (snd (createCase ledgerRace wallet))) blank)) = None
   \<and> fst (createCase_begin (wallet\<lparr>isConnected := False\<rparr>)) = None
   \<and> newUi (wallet\<lparr>isConnected := False\<rparr>) (snd (createCase ledger (wallet\<lparr>isConnected := False\<rparr>)))
       = [SetTransactionStatus (banner error ''Please connect wallet first''), SetTimeout 3000]
   \<and> fst (createCase_try ledgerRejected walletFrame (snd (createCase_begin wallet)))
       = Throw (Message ''user rejected transaction'')
   \<and> \<not> unreadable (Message ''user rejected transaction'')
   \<and> ui_log (snd (createCase_rest ledgerRejected walletFrame (snd (createCase_begin wallet))))
       = ui_log (snd (createCase_try ledgerRejected walletFrame (snd (createCase_begin wallet))))
         @ [SetTransactionStatus (banner error ''Transaction rejected''), SetTimeout 3000]
   \<and> isConnected wallet \<and> \<not> noAddress (address wallet)
   \<and> getContractReadOnly ledgerNoContract (tick wallet) = Resolved False
   \<and> decryptData ledgerNoContract ''case-1'' wallet = (Normal None, called GetContractReadOnly wallet)"
proof -
  let ?d = "replay [100, 100, 100, 100, 100, 100]
              (newTimeline wallet (snd (createCase ledgerRace wallet))) blank"
  have a: "fst (testAvailability_try ledger wallet) = Normal ()"
    by (simp add: testAvailability_try_def ledger_def Let_def)
  have b: "fst (createCase_begin (wallet\<lparr>isConnected := False\<rparr>)) = None"
    by (simp add: createCase_begin_def)
  have c: "fst (createCase_try ledgerRejected walletFrame (snd (createCase_begin wallet)))
             = Throw (Message ''user rejected transaction'')
           \<and> \<not> unreadable (Message ''user rejected transaction'')"
    by (simp add: createCase_try_wallet(2) unreadable_def)
  have d: "isConnected wallet \<and> \<not> noAddress (address wallet)
        \<and> getContractReadOnly ledgerNoContract (tick wallet) = Resolved False"
    by (simp add: wallet_def ledgerNoContract_def noAddress_def)
  have cb: "covered blank"
    by (simp add: covered_def blank_def)
  have h: "covered ?d \<and> d_shown ?d = Some (error, 600) \<and> delayOf error = Some 3000
           \<and> 600 + 3000 \<le> d_clock ?d + 3000"
    by (simp add: race_display covered_def)
  note t1 = banners_and_timers [where st = wallet and env = ledgerRace, THEN conjunct1]
  note t6 = banners_and_timers [where st = wallet and env = ledger, THEN conjunct2,
              THEN conjunct2, THEN conjunct2, THEN conjunct2, THEN conjunct2, THEN conjunct1,
              rule_format, OF a]
  note t7 = banners_and_timers [where st = wallet and st' = "snd (createCase ledgerRace wallet)"
              and d = blank and ls = "[100, 100, 100, 100, 100, 100]", THEN conjunct2,
              THEN conjunct2, THEN conjunct2, THEN conjunct2, THEN conjunct2, THEN conjunct2,
              THEN conjunct1, rule_format, OF conjI [OF t1 cb]]
  note t8 = banners_and_timers [where d = ?d and p = error and since = 600 and n = 3000
              and l = 3000, THEN conjunct2,
              THEN conjunct2, THEN conjunct2, THEN conjunct2, THEN conjunct2, THEN conjunct2,
              THEN conjunct2, THEN conjunct1, rule_format, OF h]
  note t9 = banners_and_timers [where st = "wallet\<lparr>isConnected := False\<rparr>" and env = ledger,
              THEN conjunct2,
              THEN conjunct2, THEN conjunct2, THEN conjunct2, THEN conjunct2, THEN conjunct2,
              THEN conjunct2, THEN conjunct2, THEN conjunct1, rule_format, OF b]
  note t10 = banners_and_timers [where st = "snd (createCase_begin wallet)"
              and env = ledgerRejected and fr = walletFrame
              and e = "Message ''user rejected transaction''", THEN conjunct2,
              THEN conjunct2, THEN conjunct2, THEN conjunct2, THEN conjunct2, THEN conjunct2,
              THEN conjunct2, THEN conjunct2, THEN conjunct2, THEN conjunct1, rule_format, OF c]
  note t11 = banners_and_timers [where st = wallet and env = ledgerNoContract
              and businessId = "''case-1''", THEN conjunct2,
              THEN conjunct2, THEN conjunct2, THEN conjunct2, THEN conjunct2, THEN conjunct2,
              THEN conjunct2, THEN conjunct2, THEN conjunct2, THEN conjunct2, rule_format, OF d]
  have m: "errorMessage (Message ''user rejected transaction'') = ''Transaction rejected''"
    by (simp add: errorMessage_def message_includes_def)
  from a b c d cb h t1 t6 t7 t8 t9 t10 t11 show ?thesis
    by (simp add: m)
qed

text \<open>
  The claim fails three times. A decryption that obtains no contract fails (it returns
  null) with no banner at all. The error banner of the availability check, whose timer is
  requested in the finally block shared with the success banner, gets a timer of 2000 ms.
  And a success banner is not always gone before an error banner: the error banner of the
  reload that ends a create is hidden by the timer of the create's success banner, here
  1800 ms after it was set, while the success banner of an availability check is still on
  display 1800 ms after it was set.
\<close>

theorem banners_and_timers_counterexample:
  "fst (decryptData ledgerNoContract ''case-1'' wallet) = Normal None
   \<and> newUi wallet (snd (decryptData ledgerNoContract ''case-1'' wallet)) = []
   \<and> newUi wallet (snd (testAvailability ledgerDown wallet))
       = [SetTransactionStatus (banner error ''Availability check failed''), SetTimeout 2000]
   \<and> d_shown (replay [100, 100, 100, 100, 100, 100]
        (newTimeline wallet (snd (createCase ledgerRace wallet))) blank) = Some (error, 600)
   \<and> d_shown (advance 1800 (replay [100, 100, 100, 100, 100, 100]
        (newTimeline wallet (snd (createCase ledgerRace wallet))) blank)) = None
   \<and> d_shown (replay [100, 100]
        (newTimeline wallet (snd (testAvailability ledger wallet))) blank) = Some (success, 200)
   \<and> d_shown (advance 1800 (replay [100, 100]
        (newTimeline wallet (snd (testAvailability ledger wallet))) blank)) = Some (success, 200)"
proof -
  have a: "decryptData ledgerNoContract ''case-1'' wallet
             = (Normal None, called GetContractReadOnly wallet)"
    using decryptData_no_contract [of wallet ledgerNoContract "''case-1''"]
    by (simp add: wallet_def ledgerNoContract_def noAddress_def tick_def)
  have b: "newUi wallet (snd (testAvailability ledgerDown wallet))
       = [SetTransactionStatus (banner error ''Availability check failed''), SetTimeout 2000]"
    by (simp add: newUi_def testAvailability_def testAvailability_try_def
          testAvailability_catch_def Let_def ledgerDown_def ledger_def wallet_def state_proj)
  from a b show ?thesis
    by (simp add: newUi_def state_proj race_display ready_display advance_def)
qed

end
